theory Spec2Isabelle
  imports Complex_Main "HOL-Library.Multiset" "HOL-Library.List_Lexorder" "HOL-Library.Char_ord"
begin

section \<open>Numbers\<close>

text \<open>
  The program computes with JavaScript numbers. The model computes with exact rationals
  (\<^typ>\<open>rat\<close>) wherever the value is finite, so it describes the code up to the rounding
  error of double arithmetic. The only operation of the calculator that can leave the finite
  numbers is the unguarded division \<^verbatim>\<open>unit.area / totalArea\<close>: in JavaScript a division
  by zero gives \<^verbatim>\<open>Infinity\<close>, \<^verbatim>\<open>-Infinity\<close> or \<^verbatim>\<open>NaN\<close>, and every later
  multiplication, addition and \<^verbatim>\<open>Math.round\<close> of such a value with finite operands is
  again one of the three. \<open>NonFinite\<close> stands for them.
\<close>

datatype jsnum = Fin rat | NonFinite

fun js_div :: "rat \<Rightarrow> rat \<Rightarrow> jsnum" where
  "js_div a b = (if b = 0 then NonFinite else Fin (a / b))"

fun js_mul :: "jsnum \<Rightarrow> rat \<Rightarrow> jsnum" where
  "js_mul (Fin a) b = Fin (a * b)"
| "js_mul NonFinite b = NonFinite"

fun js_add :: "jsnum \<Rightarrow> jsnum \<Rightarrow> jsnum" where
  "js_add (Fin a) (Fin b) = Fin (a + b)"
| "js_add _ _ = NonFinite"

text \<open>\<^verbatim>\<open>Math.round\<close>: the nearest integer, a tie going up.\<close>

definition round_half_up :: "rat \<Rightarrow> rat" where
  "round_half_up x = of_int \<lfloor>x + 1 / 2\<rfloor>"

fun Math_round :: "jsnum \<Rightarrow> jsnum" where
  "Math_round (Fin x) = Fin (round_half_up x)"
| "Math_round NonFinite = NonFinite"

section \<open>Database.ts\<close>

text \<open>
  The rows of the four tables. The columns \<^verbatim>\<open>id\<close> (of the three tables with an
  autoincrement key) and \<^verbatim>\<open>created_at\<close> are filled in by the SQL engine and never read by
  the calculator; they are left out. The fields \<^verbatim>\<open>year\<close>, \<^verbatim>\<open>month\<close> and
  \<^verbatim>\<open>unit_id\<close> occur in several interfaces and carry a suffix in all but the first.
\<close>

record Unit =
  id' :: string
  name :: string
  area :: rat

record MeterReading =
  unit_id :: string
  year :: int
  month :: int
  electricity_reading :: rat
  water_reading :: rat

record MonthlyBill =
  year_mb :: int
  month_mb :: int
  total_electricity_cost :: rat
  total_water_cost :: rat
  total_management_cost :: rat

record UnitBill =
  unit_id_ub :: string
  year_ub :: int
  month_ub :: int
  electricity_cost :: jsnum
  water_cost :: jsnum
  management_cost :: jsnum
  total_cost :: jsnum

text \<open>
  The store behind the handle: each table is the list of its rows in insertion order.
  The handle itself (\<^verbatim>\<open>private db: SqlDatabase | null\<close>) is \<open>None\<close> until the engine is
  loaded, and every method throws \<^verbatim>\<open>Error('Database not initialized')\<close> on it.
  Writing the export to local storage (\<^verbatim>\<open>autoSave\<close>) catches its own errors and does
  not touch the tables; it is not modelled. Neither is what the SQL engine itself may
  refuse: a row is stored as it is given, also when a cost in it is not finite.
\<close>

record tables =
  units :: "Unit list"
  meter_readings :: "MeterReading list"
  monthly_bills :: "MonthlyBill list"
  unit_bills :: "UnitBill list"

type_synonym Database = "tables option"

datatype error = NotInitialized

text \<open>
  \<^verbatim>\<open>INSERT OR REPLACE\<close> under a \<^verbatim>\<open>UNIQUE\<close> constraint: the rows in conflict with the
  new one are deleted, then the new row is inserted.
\<close>

definition insert_or_replace :: "('r \<Rightarrow> 'k) \<Rightarrow> 'r \<Rightarrow> 'r list \<Rightarrow> 'r list" where
  "insert_or_replace key r rows = filter (\<lambda>x. key x \<noteq> key r) rows @ [r]"

definition reading_key :: "MeterReading \<Rightarrow> string \<times> int \<times> int" where
  "reading_key r = (unit_id r, year r, month r)"

definition monthly_bill_key :: "MonthlyBill \<Rightarrow> int \<times> int" where
  "monthly_bill_key b = (year_mb b, month_mb b)"

definition unit_bill_key :: "UnitBill \<Rightarrow> string \<times> int \<times> int" where
  "unit_bill_key b = (unit_id_ub b, year_ub b, month_ub b)"

definition createTables :: "tables" where
  "createTables = \<lparr>units = [], meter_readings = [], monthly_bills = [], unit_bills = []\<rparr>"

text \<open>The syllable that ends the two display names, in UTF-8.\<close>

definition ho :: string where
  "ho = [CHR 0xED, CHR 0x98, CHR 0xB8]"

definition insertDefaultData :: "tables \<Rightarrow> tables" where
  "insertDefaultData t =
     t\<lparr>units :=
         insert_or_replace id' \<lparr>id' = ''601B'', name = ''601B'' @ ho, area = 120\<rparr>
           (insert_or_replace id' \<lparr>id' = ''601A'', name = ''601A'' @ ho, area = 60\<rparr>
              (units t))\<rparr>"

definition initialize :: "Database" where
  "initialize = Some (insertDefaultData createTables)"

definition saveMeterReading :: "MeterReading \<Rightarrow> Database \<Rightarrow> error + Database" where
  "saveMeterReading reading db =
     (case db of
        None \<Rightarrow> Inl NotInitialized
      | Some t \<Rightarrow>
          Inr (Some (t\<lparr>meter_readings :=
                        insert_or_replace reading_key reading (meter_readings t)\<rparr>)))"

definition saveMonthlyBill :: "MonthlyBill \<Rightarrow> Database \<Rightarrow> error + Database" where
  "saveMonthlyBill bill db =
     (case db of
        None \<Rightarrow> Inl NotInitialized
      | Some t \<Rightarrow>
          Inr (Some (t\<lparr>monthly_bills :=
                        insert_or_replace monthly_bill_key bill (monthly_bills t)\<rparr>)))"

definition saveUnitBill :: "UnitBill \<Rightarrow> Database \<Rightarrow> error + Database" where
  "saveUnitBill bill db =
     (case db of
        None \<Rightarrow> Inl NotInitialized
      | Some t \<Rightarrow>
          Inr (Some (t\<lparr>unit_bills :=
                        insert_or_replace unit_bill_key bill (unit_bills t)\<rparr>)))"

text \<open>\<^verbatim>\<open>SELECT * FROM units ORDER BY id\<close>\<close>

definition getUnits :: "Database \<Rightarrow> error + Unit list" where
  "getUnits db =
     (case db of None \<Rightarrow> Inl NotInitialized | Some t \<Rightarrow> Inr (sort_key id' (units t)))"

definition getMeterReadings :: "Database \<Rightarrow> int \<Rightarrow> int \<Rightarrow> error + MeterReading list" where
  "getMeterReadings db y m =
     (case db of
        None \<Rightarrow> Inl NotInitialized
      | Some t \<Rightarrow> Inr (filter (\<lambda>r. year r = y \<and> month r = m) (meter_readings t)))"

definition getPreviousMonthReading ::
  "Database \<Rightarrow> string \<Rightarrow> int \<Rightarrow> int \<Rightarrow> error + MeterReading option" where
  "getPreviousMonthReading db unitId y m =
     (case db of
        None \<Rightarrow> Inl NotInitialized
      | Some t \<Rightarrow>
          (let prevYear = y; prevMonth = m - 1;
               (prevYear, prevMonth) =
                  (if prevMonth = 0 then (y - 1, 12) else (prevYear, prevMonth))
           in Inr (find (\<lambda>r. unit_id r = unitId \<and> year r = prevYear \<and> month r = prevMonth)
                     (meter_readings t))))"

definition getMonthlyBill :: "Database \<Rightarrow> int \<Rightarrow> int \<Rightarrow> error + MonthlyBill option" where
  "getMonthlyBill db y m =
     (case db of
        None \<Rightarrow> Inl NotInitialized
      | Some t \<Rightarrow> Inr (find (\<lambda>b. year_mb b = y \<and> month_mb b = m) (monthly_bills t)))"

definition getUnitBills :: "Database \<Rightarrow> int \<Rightarrow> int \<Rightarrow> error + UnitBill list" where
  "getUnitBills db y m =
     (case db of
        None \<Rightarrow> Inl NotInitialized
      | Some t \<Rightarrow> Inr (filter (\<lambda>b. year_ub b = y \<and> month_ub b = m) (unit_bills t)))"

section \<open>BillCalculator.ts\<close>

definition calculateElectricityUsage :: "MeterReading \<Rightarrow> MeterReading option \<Rightarrow> rat" where
  "calculateElectricityUsage currentReading previousReading =
     (case previousReading of
        None \<Rightarrow> 0
      | Some p \<Rightarrow> max 0 (electricity_reading currentReading - electricity_reading p))"

definition calculateWaterUsage :: "MeterReading \<Rightarrow> MeterReading option \<Rightarrow> rat" where
  "calculateWaterUsage currentReading previousReading =
     (case previousReading of
        None \<Rightarrow> 0
      | Some p \<Rightarrow> max 0 (water_reading currentReading - water_reading p))"

text \<open>
  The two loops that total the usage. The last argument is the running \<^verbatim>\<open>totalUsage\<close>;
  a unit without a reading in \<^verbatim>\<open>currentReadings\<close> is passed over (\<^verbatim>\<open>continue\<close>).
\<close>

fun calculateTotalElectricityUsage ::
  "Database \<Rightarrow> Unit list \<Rightarrow> MeterReading list \<Rightarrow> int \<Rightarrow> int \<Rightarrow> rat \<Rightarrow> error + rat" where
  "calculateTotalElectricityUsage db [] currentReadings y m totalUsage = Inr totalUsage"
| "calculateTotalElectricityUsage db (unit # rest) currentReadings y m totalUsage =
     (case find (\<lambda>r. unit_id r = id' unit) currentReadings of
        None \<Rightarrow> calculateTotalElectricityUsage db rest currentReadings y m totalUsage
      | Some currentReading \<Rightarrow>
          (case getPreviousMonthReading db (id' unit) y m of
             Inl e \<Rightarrow> Inl e
           | Inr previousReading \<Rightarrow>
               calculateTotalElectricityUsage db rest currentReadings y m
                 (totalUsage + calculateElectricityUsage currentReading previousReading)))"

fun calculateTotalWaterUsage ::
  "Database \<Rightarrow> Unit list \<Rightarrow> MeterReading list \<Rightarrow> int \<Rightarrow> int \<Rightarrow> rat \<Rightarrow> error + rat" where
  "calculateTotalWaterUsage db [] currentReadings y m totalUsage = Inr totalUsage"
| "calculateTotalWaterUsage db (unit # rest) currentReadings y m totalUsage =
     (case find (\<lambda>r. unit_id r = id' unit) currentReadings of
        None \<Rightarrow> calculateTotalWaterUsage db rest currentReadings y m totalUsage
      | Some currentReading \<Rightarrow>
          (case getPreviousMonthReading db (id' unit) y m of
             Inl e \<Rightarrow> Inl e
           | Inr previousReading \<Rightarrow>
               calculateTotalWaterUsage db rest currentReadings y m
                 (totalUsage + calculateWaterUsage currentReading previousReading)))"

text \<open>
  The three shares of one unit before rounding, as the loop body of
  \<^verbatim>\<open>calculateAndSaveBills\<close> computes them.
\<close>

definition electricityCost :: "rat \<Rightarrow> rat \<Rightarrow> rat \<Rightarrow> jsnum" where
  "electricityCost electricityUsage totalElectricityUsage totalElectricityCost =
     (if totalElectricityUsage > 0
      then js_mul (js_div electricityUsage totalElectricityUsage) totalElectricityCost
      else Fin 0)"

definition waterCost :: "rat \<Rightarrow> rat \<Rightarrow> rat \<Rightarrow> jsnum" where
  "waterCost waterUsage totalWaterUsage totalWaterCost =
     (if totalWaterUsage > 0
      then js_mul (js_div waterUsage totalWaterUsage) totalWaterCost
      else Fin 0)"

definition managementCost :: "Unit \<Rightarrow> rat \<Rightarrow> rat \<Rightarrow> jsnum" where
  "managementCost unit totalArea totalManagementCost =
     js_mul (js_div (area unit) totalArea) totalManagementCost"

definition make_unitBill :: "Unit \<Rightarrow> int \<Rightarrow> int \<Rightarrow> jsnum \<Rightarrow> jsnum \<Rightarrow> jsnum \<Rightarrow> UnitBill" where
  "make_unitBill unit y m eCost wCost mCost =
     \<lparr>unit_id_ub = id' unit, year_ub = y, month_ub = m,
      electricity_cost = Math_round eCost,
      water_cost = Math_round wCost,
      management_cost = Math_round mCost,
      total_cost = Math_round (js_add (js_add eCost wCost) mCost)\<rparr>"

text \<open>
  The billing loop \<^verbatim>\<open>for (const unit of units)\<close>. It threads the database, which
  \<^verbatim>\<open>saveUnitBill\<close> changes and \<^verbatim>\<open>getPreviousMonthReading\<close> reads, and the list
  \<^verbatim>\<open>unitBills\<close> built so far.
\<close>

fun bill_units ::
  "Unit list \<Rightarrow> MeterReading list \<Rightarrow> int \<Rightarrow> int \<Rightarrow> rat \<Rightarrow> rat \<Rightarrow> rat \<Rightarrow> rat \<Rightarrow> rat \<Rightarrow> rat \<Rightarrow>
   Database \<Rightarrow> UnitBill list \<Rightarrow> error + (UnitBill list \<times> Database)" where
  "bill_units [] currentReadings y m totalArea totalElectricityUsage totalWaterUsage
     totalElectricityCost totalWaterCost totalManagementCost db unitBills = Inr (unitBills, db)"
| "bill_units (unit # rest) currentReadings y m totalArea totalElectricityUsage totalWaterUsage
     totalElectricityCost totalWaterCost totalManagementCost db unitBills =
     (case find (\<lambda>r. unit_id r = id' unit) currentReadings of
        None \<Rightarrow>
          bill_units rest currentReadings y m totalArea totalElectricityUsage totalWaterUsage
            totalElectricityCost totalWaterCost totalManagementCost db unitBills
      | Some currentReading \<Rightarrow>
          (case getPreviousMonthReading db (id' unit) y m of
             Inl e \<Rightarrow> Inl e
           | Inr previousReading \<Rightarrow>
               (let electricityUsage = calculateElectricityUsage currentReading previousReading;
                    eCost = electricityCost electricityUsage totalElectricityUsage
                              totalElectricityCost;
                    waterUsage = calculateWaterUsage currentReading previousReading;
                    wCost = waterCost waterUsage totalWaterUsage totalWaterCost;
                    mCost = managementCost unit totalArea totalManagementCost;
                    unitBill = make_unitBill unit y m eCost wCost mCost
                in case saveUnitBill unitBill db of
                     Inl e \<Rightarrow> Inl e
                   | Inr db' \<Rightarrow>
                       bill_units rest currentReadings y m totalArea totalElectricityUsage
                         totalWaterUsage totalElectricityCost totalWaterCost
                         totalManagementCost db' (unitBills @ [unitBill]))))"

definition calculateAndSaveBills ::
  "int \<Rightarrow> int \<Rightarrow> rat \<Rightarrow> rat \<Rightarrow> rat \<Rightarrow> Database \<Rightarrow> error + (UnitBill list \<times> Database)" where
  "calculateAndSaveBills y m totalElectricityCost totalWaterCost totalManagementCost db =
     (let monthlyBill = \<lparr>year_mb = y, month_mb = m,
                         total_electricity_cost = totalElectricityCost,
                         total_water_cost = totalWaterCost,
                         total_management_cost = totalManagementCost\<rparr>
      in case saveMonthlyBill monthlyBill db of
           Inl e \<Rightarrow> Inl e
         | Inr db1 \<Rightarrow>
        (case getUnits db1 of
           Inl e \<Rightarrow> Inl e
         | Inr us \<Rightarrow>
        (case getMeterReadings db1 y m of
           Inl e \<Rightarrow> Inl e
         | Inr currentReadings \<Rightarrow>
        (let totalArea = foldl (\<lambda>sum unit. sum + area unit) 0 us
         in case calculateTotalElectricityUsage db1 us currentReadings y m 0 of
              Inl e \<Rightarrow> Inl e
            | Inr totalElectricityUsage \<Rightarrow>
           (case calculateTotalWaterUsage db1 us currentReadings y m 0 of
              Inl e \<Rightarrow> Inl e
            | Inr totalWaterUsage \<Rightarrow>
                bill_units us currentReadings y m totalArea totalElectricityUsage
                  totalWaterUsage totalElectricityCost totalWaterCost totalManagementCost
                  db1 [])))))"

record UsageDetails =
  currentElectricity :: rat
  previousElectricity :: rat
  electricityUsage :: rat
  currentWater :: rat
  previousWater :: rat
  waterUsage :: rat

definition getUsageDetails ::
  "Database \<Rightarrow> string \<Rightarrow> int \<Rightarrow> int \<Rightarrow> error + UsageDetails option" where
  "getUsageDetails db unitId y m =
     (case getMeterReadings db y m of
        Inl e \<Rightarrow> Inl e
      | Inr rs \<Rightarrow>
          (let currentReading = find (\<lambda>r. unit_id r = unitId) rs
           in case getPreviousMonthReading db unitId y m of
                Inl e \<Rightarrow> Inl e
              | Inr previousReading \<Rightarrow>
                  (case currentReading of
                     None \<Rightarrow> Inr None
                   | Some c \<Rightarrow>
                       Inr (Some
                         \<lparr>currentElectricity = electricity_reading c,
                          previousElectricity =
                            (case previousReading of None \<Rightarrow> 0
                             | Some p \<Rightarrow> electricity_reading p),
                          electricityUsage = calculateElectricityUsage c previousReading,
                          currentWater = water_reading c,
                          previousWater =
                            (case previousReading of None \<Rightarrow> 0 | Some p \<Rightarrow> water_reading p),
                          waterUsage = calculateWaterUsage c previousReading\<rparr>))))"

section \<open>sampleData.ts\<close>

definition januaryReadings :: "MeterReading list" where
  "januaryReadings =
     [\<lparr>unit_id = ''601A'', year = 2024, month = 1,
       electricity_reading = 1923, water_reading = 897 / 10\<rparr>,
      \<lparr>unit_id = ''601B'', year = 2024, month = 1,
       electricity_reading = 30635, water_reading = 897 / 10\<rparr>]"

definition februaryReadings :: "MeterReading list" where
  "februaryReadings =
     [\<lparr>unit_id = ''601A'', year = 2024, month = 2,
       electricity_reading = 2123, water_reading = 9336 / 100\<rparr>,
      \<lparr>unit_id = ''601B'', year = 2024, month = 2,
       electricity_reading = 30734, water_reading = 9336 / 100\<rparr>]"

fun save_readings :: "MeterReading list \<Rightarrow> Database \<Rightarrow> error + Database" where
  "save_readings [] db = Inr db"
| "save_readings (reading # rest) db =
     (case saveMeterReading reading db of Inl e \<Rightarrow> Inl e | Inr db' \<Rightarrow> save_readings rest db')"

text \<open>
  \<^verbatim>\<open>insertSampleData\<close> returns \<^verbatim>\<open>true\<close> when both \<^verbatim>\<open>forEach\<close> went through and
  \<^verbatim>\<open>false\<close> from its \<^verbatim>\<open>catch\<close>; the database is returned beside it.
\<close>

definition insertSampleData :: "Database \<Rightarrow> bool \<times> Database" where
  "insertSampleData database =
     (case save_readings januaryReadings database of
        Inl e \<Rightarrow> (False, database)
      | Inr db1 \<Rightarrow>
          (case save_readings februaryReadings db1 of
             Inl e \<Rightarrow> (False, db1)
           | Inr db2 \<Rightarrow> (True, db2)))"

text \<open>The database after \<^verbatim>\<open>initialize\<close> and \<^verbatim>\<open>insertSampleData\<close>, and its tables.\<close>

definition sample_database :: Database where
  "sample_database = snd (insertSampleData initialize)"

definition sample_tables :: tables where
  "sample_tables =
     (insertDefaultData createTables)\<lparr>meter_readings := januaryReadings @ februaryReadings\<rparr>"

text \<open>
  A database in its first month: the two default units, and one reading, of February 2024
  for unit 601A. Unit 601B has no reading, and nothing was read in January.
\<close>

definition first_month_tables :: tables where
  "first_month_tables =
     (insertDefaultData createTables)
       \<lparr>meter_readings :=
          [\<lparr>unit_id = ''601A'', year = 2024, month = 2,
            electricity_reading = 2123, water_reading = 9336 / 100\<rparr>]\<rparr>"

section \<open>BillCalculationForm.tsx and BillManagement.tsx\<close>

text \<open>
  The two click handlers that start a calculation. The state they write is the alert
  (\<^verbatim>\<open>message\<close>) and the table of results (\<^verbatim>\<open>calculatedBills\<close>); the database is
  threaded beside it. The texts of the alerts are Korean sentences; \<open>message_text\<close>
  names each of them, with the year and month it interpolates.
  The amounts come from \<^verbatim>\<open>parseFloat\<close> on the text fields, which is not modelled: the
  handlers take its results, \<open>None\<close> for \<^verbatim>\<open>NaN\<close>.
\<close>

datatype severity = Success | Error | Info

datatype message_text =
    InvalidAmount
  | NegativeAmount
  | SharedCostNegative
  | NoReadings int int
  | Calculated int int
  | CalculationFailed

datatype message = Message severity message_text

record ui_state =
  calculatedBills :: "UnitBill list"
  message :: "message option"

definition handleCalculate ::
  "int \<Rightarrow> int \<Rightarrow> rat option \<Rightarrow> rat option \<Rightarrow> rat option \<Rightarrow> Database \<Rightarrow> ui_state \<Rightarrow>
   ui_state \<times> Database" where
  "handleCalculate selectedYear selectedMonth parsedElectricity parsedWater parsedManagement
     database ui =
     (case (parsedElectricity, parsedWater, parsedManagement) of
        (Some e, Some w, Some g) \<Rightarrow>
          if e < 0 \<or> w < 0 \<or> g < 0
          then (ui\<lparr>message := Some (Message Error NegativeAmount)\<rparr>, database)
          else
            (case getMeterReadings database selectedYear selectedMonth of
               Inl err \<Rightarrow> (ui\<lparr>message := Some (Message Error CalculationFailed)\<rparr>, database)
             | Inr meterReadings \<Rightarrow>
                 if length meterReadings = 0
                 then (ui\<lparr>message :=
                           Some (Message Error (NoReadings selectedYear selectedMonth))\<rparr>,
                       database)
                 else
                   (case calculateAndSaveBills selectedYear selectedMonth e w g database of
                      Inl err \<Rightarrow>
                        (ui\<lparr>message := Some (Message Error CalculationFailed)\<rparr>, database)
                    | Inr (bills, database') \<Rightarrow>
                        (ui\<lparr>calculatedBills := bills,
                            message :=
                              Some (Message Success (Calculated selectedYear selectedMonth))\<rparr>,
                         database')))
      | _ \<Rightarrow> (ui\<lparr>message := Some (Message Error InvalidAmount)\<rparr>, database))"

text \<open>
  \<^verbatim>\<open>handleCalculateBills\<close> of the combined screen also reads the state
  \<^verbatim>\<open>calculatedSharedCost\<close>, which it passes on as the management total.
\<close>

definition handleCalculateBills ::
  "int \<Rightarrow> int \<Rightarrow> rat option \<Rightarrow> rat option \<Rightarrow> rat option \<Rightarrow> rat \<Rightarrow> Database \<Rightarrow> ui_state \<Rightarrow>
   ui_state \<times> Database" where
  "handleCalculateBills selectedYear selectedMonth totalMgmt totalElec totalWater
     calculatedSharedCost database ui =
     (case (totalMgmt, totalElec, totalWater) of
        (Some g, Some e, Some w) \<Rightarrow>
          if g < 0 \<or> e < 0 \<or> w < 0
          then (ui\<lparr>message := Some (Message Error NegativeAmount)\<rparr>, database)
          else if calculatedSharedCost < 0
          then (ui\<lparr>message := Some (Message Error SharedCostNegative)\<rparr>, database)
          else
            (case getMeterReadings database selectedYear selectedMonth of
               Inl err \<Rightarrow> (ui\<lparr>message := Some (Message Error CalculationFailed)\<rparr>, database)
             | Inr meterReadings \<Rightarrow>
                 if length meterReadings = 0
                 then (ui\<lparr>message :=
                           Some (Message Error (NoReadings selectedYear selectedMonth))\<rparr>,
                       database)
                 else
                   (case calculateAndSaveBills selectedYear selectedMonth e w
                           calculatedSharedCost database of
                      Inl err \<Rightarrow>
                        (ui\<lparr>message := Some (Message Error CalculationFailed)\<rparr>, database)
                    | Inr (bills, database') \<Rightarrow>
                        (ui\<lparr>calculatedBills := bills,
                            message :=
                              Some (Message Success (Calculated selectedYear selectedMonth))\<rparr>,
                         database')))
      | _ \<Rightarrow> (ui\<lparr>message := Some (Message Error InvalidAmount)\<rparr>, database))"

section \<open>The calculation on an initialised database\<close>

text \<open>
  What the calculator reads, as functions of the tables: the rows of the target month, the
  row of one unit among them, the row of the month before, and the registered units in the
  order \<^verbatim>\<open>getUnits\<close> returns them.
\<close>

definition registered_units :: "tables \<Rightarrow> Unit list" where
  "registered_units t = sort_key id' (units t)"

definition currentReadings_of :: "tables \<Rightarrow> int \<Rightarrow> int \<Rightarrow> MeterReading list" where
  "currentReadings_of t y m = filter (\<lambda>r. year r = y \<and> month r = m) (meter_readings t)"

definition currentReading_of :: "tables \<Rightarrow> int \<Rightarrow> int \<Rightarrow> string \<Rightarrow> MeterReading option" where
  "currentReading_of t y m u = find (\<lambda>r. unit_id r = u) (currentReadings_of t y m)"

text \<open>
  The reading of the preceding calendar month, in the words of the specification:
  December of the year before when the month is 1.
\<close>

definition previousReading_of :: "tables \<Rightarrow> string \<Rightarrow> int \<Rightarrow> int \<Rightarrow> MeterReading option" where
  "previousReading_of t u y m =
     find (\<lambda>r. unit_id r = u \<and> year r = (if m = 1 then y - 1 else y)
                 \<and> month r = (if m = 1 then 12 else m - 1))
       (meter_readings t)"

definition has_reading :: "tables \<Rightarrow> int \<Rightarrow> int \<Rightarrow> Unit \<Rightarrow> bool" where
  "has_reading t y m u = (currentReading_of t y m (id' u) \<noteq> None)"

definition billed_units :: "tables \<Rightarrow> int \<Rightarrow> int \<Rightarrow> Unit list" where
  "billed_units t y m = filter (has_reading t y m) (registered_units t)"

definition unit_electricityUsage :: "tables \<Rightarrow> int \<Rightarrow> int \<Rightarrow> Unit \<Rightarrow> rat" where
  "unit_electricityUsage t y m u =
     (case currentReading_of t y m (id' u) of
        None \<Rightarrow> 0
      | Some c \<Rightarrow> calculateElectricityUsage c (previousReading_of t (id' u) y m))"

definition unit_waterUsage :: "tables \<Rightarrow> int \<Rightarrow> int \<Rightarrow> Unit \<Rightarrow> rat" where
  "unit_waterUsage t y m u =
     (case currentReading_of t y m (id' u) of
        None \<Rightarrow> 0
      | Some c \<Rightarrow> calculateWaterUsage c (previousReading_of t (id' u) y m))"

definition totalElectricityUsage_of :: "tables \<Rightarrow> int \<Rightarrow> int \<Rightarrow> rat" where
  "totalElectricityUsage_of t y m =
     sum_list (map (unit_electricityUsage t y m) (registered_units t))"

definition totalWaterUsage_of :: "tables \<Rightarrow> int \<Rightarrow> int \<Rightarrow> rat" where
  "totalWaterUsage_of t y m = sum_list (map (unit_waterUsage t y m) (registered_units t))"

definition totalArea_of :: "tables \<Rightarrow> rat" where
  "totalArea_of t = sum_list (map area (registered_units t))"

text \<open>The three shares of a unit before rounding, and the bill built from them.\<close>

definition electricityCost_of :: "tables \<Rightarrow> int \<Rightarrow> int \<Rightarrow> rat \<Rightarrow> Unit \<Rightarrow> jsnum" where
  "electricityCost_of t y m E u =
     electricityCost (unit_electricityUsage t y m u) (totalElectricityUsage_of t y m) E"

definition waterCost_of :: "tables \<Rightarrow> int \<Rightarrow> int \<Rightarrow> rat \<Rightarrow> Unit \<Rightarrow> jsnum" where
  "waterCost_of t y m W u = waterCost (unit_waterUsage t y m u) (totalWaterUsage_of t y m) W"

definition managementCost_of :: "tables \<Rightarrow> rat \<Rightarrow> Unit \<Rightarrow> jsnum" where
  "managementCost_of t M u = managementCost u (totalArea_of t) M"

definition unit_bill_of :: "tables \<Rightarrow> int \<Rightarrow> int \<Rightarrow> rat \<Rightarrow> rat \<Rightarrow> rat \<Rightarrow> Unit \<Rightarrow> UnitBill" where
  "unit_bill_of t y m E W M u =
     make_unitBill u y m (electricityCost_of t y m E u) (waterCost_of t y m W u)
       (managementCost_of t M u)"

definition save_all :: "UnitBill list \<Rightarrow> UnitBill list \<Rightarrow> UnitBill list" where
  "save_all rows bills = foldl (\<lambda>rs b. insert_or_replace unit_bill_key b rs) rows bills"

text \<open>The bills of a result; a thrown error has none.\<close>

definition returned_bills :: "error + (UnitBill list \<times> Database) \<Rightarrow> UnitBill list" where
  "returned_bills r = (case r of Inl e \<Rightarrow> [] | Inr (bills, db) \<Rightarrow> bills)"

text \<open>The sum of a list of numbers, added up from the left.\<close>

definition js_sum :: "jsnum list \<Rightarrow> jsnum" where
  "js_sum xs = foldl js_add (Fin 0) xs"

text \<open>
  The total of a bill in the words of the specification: the three rounded components,
  summed.
\<close>

definition sum_of_rounded :: "UnitBill \<Rightarrow> jsnum" where
  "sum_of_rounded b = js_add (js_add (electricity_cost b) (water_cost b)) (management_cost b)"

text \<open>
  The usage that the statement screen shows for a unit: the fields of
  \<^verbatim>\<open>getUsageDetails\<close>, and 0 where it returns \<^verbatim>\<open>null\<close> or throws.
\<close>

definition displayed_electricityUsage :: "Database \<Rightarrow> int \<Rightarrow> int \<Rightarrow> Unit \<Rightarrow> rat" where
  "displayed_electricityUsage db y m u =
     (case getUsageDetails db (id' u) y m of
        Inr (Some d) \<Rightarrow> electricityUsage d
      | _ \<Rightarrow> 0)"

definition displayed_waterUsage :: "Database \<Rightarrow> int \<Rightarrow> int \<Rightarrow> Unit \<Rightarrow> rat" where
  "displayed_waterUsage db y m u =
     (case getUsageDetails db (id' u) y m of
        Inr (Some d) \<Rightarrow> waterUsage d
      | _ \<Rightarrow> 0)"

text \<open>Two numbers are both finite, and the first is not greater than the second.\<close>

definition finite_le :: "jsnum \<Rightarrow> jsnum \<Rightarrow> bool" where
  "finite_le a b = (case (a, b) of (Fin x, Fin y) \<Rightarrow> x \<le> y | _ \<Rightarrow> False)"

text \<open>The first default unit, and its two sample readings.\<close>

definition unit_601A :: Unit where
  "unit_601A = \<lparr>id' = ''601A'', name = ''601A'' @ ho, area = 60\<rparr>"

definition january_601A :: MeterReading where
  "january_601A = \<lparr>unit_id = ''601A'', year = 2024, month = 1,
                    electricity_reading = 1923, water_reading = 897 / 10\<rparr>"

definition february_601A :: MeterReading where
  "february_601A = \<lparr>unit_id = ''601A'', year = 2024, month = 2,
                     electricity_reading = 2123, water_reading = 9336 / 100\<rparr>"

definition unit_601B :: Unit where
  "unit_601B = \<lparr>id' = ''601B'', name = ''601B'' @ ho, area = 120\<rparr>"

text \<open>The screen before the first click: no results and no alert.\<close>

definition initial_ui :: ui_state where
  "initial_ui = \<lparr>calculatedBills = [], message = None\<rparr>"

subsection \<open>The views do not depend on the bill tables\<close>

lemma views_unit_bills [simp]:
  "registered_units (t\<lparr>unit_bills := x\<rparr>) = registered_units t"
  "currentReadings_of (t\<lparr>unit_bills := x\<rparr>) = currentReadings_of t"
  "currentReading_of (t\<lparr>unit_bills := x\<rparr>) = currentReading_of t"
  "previousReading_of (t\<lparr>unit_bills := x\<rparr>) = previousReading_of t"
  by (simp_all add: registered_units_def currentReadings_of_def currentReading_of_def
        previousReading_of_def fun_eq_iff)

lemma views_monthly_bills [simp]:
  "registered_units (t\<lparr>monthly_bills := x\<rparr>) = registered_units t"
  "currentReadings_of (t\<lparr>monthly_bills := x\<rparr>) = currentReadings_of t"
  "currentReading_of (t\<lparr>monthly_bills := x\<rparr>) = currentReading_of t"
  "previousReading_of (t\<lparr>monthly_bills := x\<rparr>) = previousReading_of t"
  by (simp_all add: registered_units_def currentReadings_of_def currentReading_of_def
        previousReading_of_def fun_eq_iff)

lemma getPreviousMonthReading_Some:
  "getPreviousMonthReading (Some t) u y m = Inr (previousReading_of t u y m)"
  by (simp add: getPreviousMonthReading_def previousReading_of_def Let_def)

lemma getMeterReadings_Some:
  "getMeterReadings (Some t) y m = Inr (currentReadings_of t y m)"
  by (simp add: getMeterReadings_def currentReadings_of_def)

lemma getUnits_Some: "getUnits (Some t) = Inr (registered_units t)"
  by (simp add: getUnits_def registered_units_def)

subsection \<open>The loops\<close>

lemma calculateTotalElectricityUsage_Some:
  "calculateTotalElectricityUsage (Some t) us (currentReadings_of t y m) y m acc =
     Inr (acc + sum_list (map (unit_electricityUsage t y m) us))"
proof (induction us arbitrary: acc)
  case Nil
  show ?case by simp
next
  case (Cons u us)
  show ?case
    by (cases "currentReading_of t y m (id' u)")
       (simp_all add: Cons.IH unit_electricityUsage_def getPreviousMonthReading_Some
          currentReading_of_def)
qed

lemma calculateTotalWaterUsage_Some:
  "calculateTotalWaterUsage (Some t) us (currentReadings_of t y m) y m acc =
     Inr (acc + sum_list (map (unit_waterUsage t y m) us))"
proof (induction us arbitrary: acc)
  case Nil
  show ?case by simp
next
  case (Cons u us)
  show ?case
    by (cases "currentReading_of t y m (id' u)")
       (simp_all add: Cons.IH unit_waterUsage_def getPreviousMonthReading_Some
          currentReading_of_def)
qed

lemma foldl_area: "foldl (\<lambda>sum unit. sum + area unit) a us = a + sum_list (map area us)"
  by (induction us arbitrary: a) simp_all

lemma bill_units_Some:
  "bill_units us (currentReadings_of t y m) y m A (totalElectricityUsage_of t y m)
       (totalWaterUsage_of t y m) E W M (Some (t\<lparr>unit_bills := rows\<rparr>)) acc =
     Inr (acc @ map (\<lambda>u. make_unitBill u y m (electricityCost_of t y m E u)
                          (waterCost_of t y m W u) (managementCost u A M))
                 (filter (has_reading t y m) us),
          Some (t\<lparr>unit_bills :=
                    save_all rows
                      (map (\<lambda>u. make_unitBill u y m (electricityCost_of t y m E u)
                                 (waterCost_of t y m W u) (managementCost u A M))
                         (filter (has_reading t y m) us))\<rparr>))"
proof (induction us arbitrary: rows acc)
  case Nil
  show ?case by (simp add: save_all_def)
next
  case (Cons u us)
  show ?case
  proof (cases "currentReading_of t y m (id' u)")
    case None
    then show ?thesis
      using Cons.IH [of rows acc]
      by (simp add: has_reading_def currentReading_of_def)
  next
    case (Some c)
    then show ?thesis
      using Cons.IH
      by (simp add: has_reading_def currentReading_of_def getPreviousMonthReading_Some
            saveUnitBill_def Let_def electricityCost_of_def waterCost_of_def
            unit_electricityUsage_def unit_waterUsage_def save_all_def)
  qed
qed

text \<open>
  On an initialised database the call always returns: the bills of the units with a reading
  in the target month, in the order of \<^verbatim>\<open>getUnits\<close>, and the tables with the row of the
  month and the bills written.
\<close>

lemma calculateAndSaveBills_Some:
  "calculateAndSaveBills y m E W M (Some t) =
     Inr (map (unit_bill_of t y m E W M) (billed_units t y m),
          Some (t\<lparr>monthly_bills :=
                    insert_or_replace monthly_bill_key
                      \<lparr>year_mb = y, month_mb = m, total_electricity_cost = E,
                       total_water_cost = W, total_management_cost = M\<rparr> (monthly_bills t),
                  unit_bills :=
                    save_all (unit_bills t)
                      (map (unit_bill_of t y m E W M) (billed_units t y m))\<rparr>))"
proof -
  define mb where "mb = \<lparr>year_mb = y, month_mb = m, total_electricity_cost = E,
                       total_water_cost = W, total_management_cost = M\<rparr>"
  define t1 where "t1 = t\<lparr>monthly_bills := insert_or_replace monthly_bill_key mb (monthly_bills t)\<rparr>"
  have t1: "t1 = t1\<lparr>unit_bills := unit_bills t\<rparr>"
    by (simp add: t1_def)
  have usage: "unit_electricityUsage t1 y m = unit_electricityUsage t y m"
    "unit_waterUsage t1 y m = unit_waterUsage t y m"
    by (simp_all add: t1_def unit_electricityUsage_def unit_waterUsage_def fun_eq_iff
          split: option.split)
  have views: "currentReadings_of t1 = currentReadings_of t"
    "totalElectricityUsage_of t1 y m = totalElectricityUsage_of t y m"
    "totalWaterUsage_of t1 y m = totalWaterUsage_of t y m"
    "has_reading t1 y m = has_reading t y m"
    "electricityCost_of t1 y m E = electricityCost_of t y m E"
    "waterCost_of t1 y m W = waterCost_of t y m W"
    "registered_units t1 = registered_units t"
    unfolding totalElectricityUsage_of_def totalWaterUsage_of_def electricityCost_of_def
      waterCost_of_def usage has_reading_def
    by (simp_all add: t1_def)
  have loop: "bill_units (registered_units t) (currentReadings_of t y m) y m (totalArea_of t)
       (totalElectricityUsage_of t y m) (totalWaterUsage_of t y m) E W M (Some t1) [] =
     Inr (map (unit_bill_of t y m E W M) (billed_units t y m),
          Some (t1\<lparr>unit_bills :=
                    save_all (unit_bills t)
                      (map (unit_bill_of t y m E W M) (billed_units t y m))\<rparr>))"
    using bill_units_Some [of "registered_units t" t1 y m "totalArea_of t" E W M
        "unit_bills t" "[]"]
    unfolding views t1 [symmetric]
    by (simp add: unit_bill_of_def [abs_def] managementCost_of_def billed_units_def)
  have te: "calculateTotalElectricityUsage (Some t1) (registered_units t)
       (currentReadings_of t y m) y m 0 = Inr (totalElectricityUsage_of t y m)"
    using calculateTotalElectricityUsage_Some [of t1 "registered_units t" y m 0]
    by (simp add: views usage totalElectricityUsage_of_def)
  have tw: "calculateTotalWaterUsage (Some t1) (registered_units t)
       (currentReadings_of t y m) y m 0 = Inr (totalWaterUsage_of t y m)"
    using calculateTotalWaterUsage_Some [of t1 "registered_units t" y m 0]
    by (simp add: views usage totalWaterUsage_of_def)
  have ta: "foldl (\<lambda>sum unit. sum + area unit) 0 (registered_units t) = totalArea_of t"
    by (simp add: foldl_area totalArea_of_def)
  show ?thesis
    unfolding calculateAndSaveBills_def Let_def mb_def [symmetric]
    by (simp add: saveMonthlyBill_def t1_def [symmetric] getUnits_Some getMeterReadings_Some
          views te tw ta loop)
qed

lemma calculateAndSaveBills_None:
  "calculateAndSaveBills y m E W M None = Inl NotInitialized"
  by (simp add: calculateAndSaveBills_def saveMonthlyBill_def)

subsection \<open>Saving rows\<close>

lemma insert_or_replace_idem:
  "insert_or_replace key r (insert_or_replace key r rows) = insert_or_replace key r rows"
  by (simp add: insert_or_replace_def)

lemma save_all_snoc:
  "save_all rows (bs @ [b]) = insert_or_replace unit_bill_key b (save_all rows bs)"
  by (simp add: save_all_def)

lemma save_all_Cons:
  "save_all rows (b # bs) = save_all (insert_or_replace unit_bill_key b rows) bs"
  by (simp add: save_all_def)

lemma save_all_decomp:
  "save_all rows bs =
     filter (\<lambda>r. unit_bill_key r \<notin> unit_bill_key ` set bs) rows @ save_all [] bs"
proof (induction bs arbitrary: rows)
  case Nil
  show ?case by (simp add: save_all_def)
next
  case (Cons b bs)
  have "save_all rows (b # bs) = save_all (insert_or_replace unit_bill_key b rows) bs"
    by (rule save_all_Cons)
  also have "\<dots> = filter (\<lambda>r. unit_bill_key r \<notin> unit_bill_key ` set bs)
                      (insert_or_replace unit_bill_key b rows) @ save_all [] bs"
    by (rule Cons.IH)
  also have "\<dots> = filter (\<lambda>r. unit_bill_key r \<notin> unit_bill_key ` set (b # bs)) rows @
                     (filter (\<lambda>r. unit_bill_key r \<notin> unit_bill_key ` set bs) [b] @
                      save_all [] bs)"
    by (auto simp: insert_or_replace_def intro: filter_cong)
  also have "filter (\<lambda>r. unit_bill_key r \<notin> unit_bill_key ` set bs) [b] @ save_all [] bs =
             save_all [] (b # bs)"
    using Cons.IH [of "insert_or_replace unit_bill_key b []"]
    by (simp add: save_all_Cons insert_or_replace_def)
  finally show ?case .
qed

lemma set_save_all: "set (save_all rows bs) \<subseteq> set rows \<union> set bs"
proof (induction bs arbitrary: rows)
  case Nil
  show ?case by (simp add: save_all_def)
next
  case (Cons b bs)
  show ?case
    using Cons.IH [of "insert_or_replace unit_bill_key b rows"]
    by (auto simp: save_all_Cons insert_or_replace_def)
qed

lemma save_all_idem: "save_all (save_all rows bs) bs = save_all rows bs"
proof -
  have "filter (\<lambda>r. unit_bill_key r \<notin> unit_bill_key ` set bs) (save_all [] bs) = []"
    using set_save_all [of "[]" bs] by (auto simp: filter_empty_conv)
  then show ?thesis
    using save_all_decomp [of "save_all rows bs" bs] save_all_decomp [of rows bs]
    by simp
qed

lemma save_all_distinct:
  "distinct (map unit_bill_key bs) \<Longrightarrow> save_all [] bs = bs"
proof (induction bs rule: rev_induct)
  case Nil
  show ?case by (simp add: save_all_def)
next
  case (snoc b bs)
  from snoc.prems have "unit_bill_key b \<notin> unit_bill_key ` set bs"
    and d: "distinct (map unit_bill_key bs)"
    by simp_all
  then have "\<forall>x\<in>set bs. unit_bill_key x \<noteq> unit_bill_key b"
    by (metis imageI)
  with snoc.IH [OF d] show ?case
    by (simp add: save_all_snoc insert_or_replace_def filter_id_conv)
qed

lemma distinct_registered:
  "distinct (map id' (units t)) \<Longrightarrow> distinct (map id' (registered_units t))"
proof -
  have "mset (map id' (registered_units t)) = mset (map id' (units t))"
    by (simp add: registered_units_def)
  then show "distinct (map id' (units t)) \<Longrightarrow> distinct (map id' (registered_units t))"
    using mset_eq_imp_distinct_iff by blast
qed

lemma unit_bill_key_of [simp]:
  "unit_bill_key (unit_bill_of t y m E W M u) = (id' u, y, m)"
  by (simp add: unit_bill_key_def unit_bill_of_def make_unitBill_def)

lemma distinct_bill_keys:
  assumes "distinct (map id' (units t))"
  shows "distinct (map unit_bill_key (map (unit_bill_of t y m E W M) (billed_units t y m)))"
proof -
  have "distinct (map id' (billed_units t y m))"
    unfolding billed_units_def using distinct_registered [OF assms]
    by (rule distinct_map_filter)
  then show ?thesis
    by (simp add: distinct_map comp_def inj_on_def)
qed

section \<open>The claims\<close>

lemma list_all2_map_same:
  "list_all2 P xs (map f xs) = (\<forall>x\<in>set xs. P x (f x))"
  by (simp add: list_all2_map2 list_all2_same)

lemma bills_are_saved:
  assumes "distinct (map id' (units t))"
    and "u \<in> set (billed_units t y m)"
  shows "unit_bill_of t y m E W M u
           \<in> set (save_all rows (map (unit_bill_of t y m E W M) (billed_units t y m)))"
proof -
  have "save_all [] (map (unit_bill_of t y m E W M) (billed_units t y m)) =
          map (unit_bill_of t y m E W M) (billed_units t y m)"
    using distinct_bill_keys [OF assms(1)] by (rule save_all_distinct)
  then show ?thesis
    using assms(2) save_all_decomp [of rows "map (unit_bill_of t y m E W M) (billed_units t y m)"]
    by simp
qed

text \<open>
  Claim C1, as the code has it. For every unit billed by \<^verbatim>\<open>calculateAndSaveBills\<close>, the
  bill returned and stored holds each of the three shares rounded on its own, and a
  \<^verbatim>\<open>total_cost\<close> that is the sum of the three unrounded shares, rounded once. The units
  have distinct identifiers, as the primary key of their table requires.
\<close>

theorem total_cost_rounds_the_sum:
  assumes "distinct (map id' (units t))"
  shows "\<exists>bills t'. calculateAndSaveBills y m E W M (Some t) = Inr (bills, Some t') \<and>
           list_all2
             (\<lambda>u b. b \<in> set (unit_bills t') \<and> unit_id_ub b = id' u \<and>
                electricity_cost b = Math_round (electricityCost_of t y m E u) \<and>
                water_cost b = Math_round (waterCost_of t y m W u) \<and>
                management_cost b = Math_round (managementCost_of t M u) \<and>
                total_cost b =
                  Math_round (js_add (js_add (electricityCost_of t y m E u)
                                        (waterCost_of t y m W u))
                                (managementCost_of t M u)))
             (billed_units t y m) bills"
  unfolding calculateAndSaveBills_Some
  using bills_are_saved [OF assms]
  by (simp add: list_all2_map_same) (simp add: unit_bill_of_def make_unitBill_def)

lemma sample_database_eq: "sample_database = Some sample_tables"
  by (simp add: sample_database_def insertSampleData_def initialize_def insertDefaultData_def
      createTables_def januaryReadings_def februaryReadings_def saveMeterReading_def
      insert_or_replace_def reading_key_def sample_tables_def)

theorem total_cost_rounds_the_sum_witness:
  "distinct (map id' (units sample_tables)) \<and>
   (\<exists>bills t'. calculateAndSaveBills 2024 2 47440 17440 223630 (Some sample_tables) =
        Inr (bills, Some t') \<and>
      list_all2
        (\<lambda>u b. b \<in> set (unit_bills t') \<and> unit_id_ub b = id' u \<and>
           electricity_cost b = Math_round (electricityCost_of sample_tables 2024 2 47440 u) \<and>
           water_cost b = Math_round (waterCost_of sample_tables 2024 2 17440 u) \<and>
           management_cost b = Math_round (managementCost_of sample_tables 223630 u) \<and>
           total_cost b =
             Math_round (js_add (js_add (electricityCost_of sample_tables 2024 2 47440 u)
                                   (waterCost_of sample_tables 2024 2 17440 u))
                           (managementCost_of sample_tables 223630 u)))
        (billed_units sample_tables 2024 2) bills)"
proof -
  have d: "distinct (map id' (units sample_tables))"
    by (simp add: sample_tables_def insertDefaultData_def createTables_def
          insert_or_replace_def)
  show ?thesis
    using d total_cost_rounds_the_sum [OF d, of 2024 2 47440 17440 223630] by simp
qed

text \<open>
  Claim C1 as the specification states it fails on the sample data of the repository: the
  shares of unit 601A are 31732.44, 8720 and 74543.33 before rounding, so its
  \<^verbatim>\<open>total_cost\<close> is 114996, and the three rounded components sum to 114995. For unit
  601B the two numbers are 173514 and 173515.
\<close>

theorem total_cost_counterexample:
  "map total_cost
     (returned_bills (calculateAndSaveBills 2024 2 47440 17440 223630 sample_database)) =
     [Fin 114996, Fin 173514] \<and>
   map sum_of_rounded
     (returned_bills (calculateAndSaveBills 2024 2 47440 17440 223630 sample_database)) =
     [Fin 114995, Fin 173515]"
  by code_simp

text \<open>
  Claim C2 as the specification states it fails: on its example the electricity shares are
  not 31727 and 15713.
\<close>

theorem sample_bills_counterexample:
  "map electricity_cost
     (returned_bills (calculateAndSaveBills 2024 2 47440 17440 223630 sample_database)) \<noteq>
     [Fin 31727, Fin 15713]"
  by code_simp

text \<open>
  Claim C2, with the numbers the code computes. On the example of the specification (the
  default units 601A of area 60 and 601B of area 120, the sample readings, and the totals
  47440, 17440 and 223630) \<^verbatim>\<open>calculateAndSaveBills\<close> returns an electricity cost of
  31732 for 601A and 15708 for 601B, which sum to 47440, a water cost of 8720 for each,
  and a management cost of 74543 and 149087.
\<close>

theorem sample_bills:
  "returned_bills (calculateAndSaveBills 2024 2 47440 17440 223630 sample_database) =
     [\<lparr>unit_id_ub = ''601A'', year_ub = 2024, month_ub = 2,
       electricity_cost = Fin 31732, water_cost = Fin 8720,
       management_cost = Fin 74543, total_cost = Fin 114996\<rparr>,
      \<lparr>unit_id_ub = ''601B'', year_ub = 2024, month_ub = 2,
       electricity_cost = Fin 15708, water_cost = Fin 8720,
       management_cost = Fin 149087, total_cost = Fin 173514\<rparr>]"
  by code_simp

subsection \<open>Sums of shares\<close>

lemma foldl_js_add_Fin:
  "foldl js_add (Fin a) (map (\<lambda>u. Fin (f u)) us) = Fin (a + sum_list (map f us))"
  by (induction us arbitrary: a) (simp_all add: add.assoc)

lemma js_sum_Fin: "js_sum (map (\<lambda>u. Fin (f u)) us) = Fin (sum_list (map f us))"
  by (simp add: js_sum_def foldl_js_add_Fin)

lemma usage_of_unbilled:
  "\<not> has_reading t y m u \<Longrightarrow> unit_electricityUsage t y m u = 0"
  "\<not> has_reading t y m u \<Longrightarrow> unit_waterUsage t y m u = 0"
  by (simp_all add: has_reading_def unit_electricityUsage_def unit_waterUsage_def)

lemma billed_electricityUsage:
  "sum_list (map (unit_electricityUsage t y m) (billed_units t y m)) =
     totalElectricityUsage_of t y m"
  unfolding billed_units_def totalElectricityUsage_of_def
  by (rule sum_list_map_filter) (simp add: usage_of_unbilled)

lemma billed_waterUsage:
  "sum_list (map (unit_waterUsage t y m) (billed_units t y m)) = totalWaterUsage_of t y m"
  unfolding billed_units_def totalWaterUsage_of_def
  by (rule sum_list_map_filter) (simp add: usage_of_unbilled)

lemma sum_list_scaled:
  fixes f :: "'a \<Rightarrow> rat"
  shows "sum_list (map (\<lambda>u. f u / d * c) us) = sum_list (map f us) / d * c"
  by (induction us) (simp_all add: algebra_simps add_divide_distrib)

lemma electricity_shares_positive:
  assumes "0 < totalElectricityUsage_of t y m"
  shows "js_sum (map (electricityCost_of t y m E) (billed_units t y m)) = Fin E"
proof -
  have eq: "map (electricityCost_of t y m E) (billed_units t y m) =
          map (\<lambda>u. Fin (unit_electricityUsage t y m u / totalElectricityUsage_of t y m * E))
            (billed_units t y m)"
    using assms by (simp add: electricityCost_of_def electricityCost_def)
  show ?thesis
    unfolding eq js_sum_Fin sum_list_scaled billed_electricityUsage using assms by simp
qed

lemma electricity_shares_zero:
  assumes "\<not> 0 < totalElectricityUsage_of t y m"
  shows "js_sum (map (electricityCost_of t y m E) (billed_units t y m)) = Fin 0"
proof -
  have eq: "map (electricityCost_of t y m E) (billed_units t y m) =
          map (\<lambda>u. Fin 0) (billed_units t y m)"
    using assms by (simp add: electricityCost_of_def electricityCost_def)
  show ?thesis
    unfolding eq by (simp add: js_sum_Fin)
qed

lemma water_shares_positive:
  assumes "0 < totalWaterUsage_of t y m"
  shows "js_sum (map (waterCost_of t y m W) (billed_units t y m)) = Fin W"
proof -
  have eq: "map (waterCost_of t y m W) (billed_units t y m) =
          map (\<lambda>u. Fin (unit_waterUsage t y m u / totalWaterUsage_of t y m * W))
            (billed_units t y m)"
    using assms by (simp add: waterCost_of_def waterCost_def)
  show ?thesis
    unfolding eq js_sum_Fin sum_list_scaled billed_waterUsage using assms by simp
qed

lemma water_shares_zero:
  assumes "\<not> 0 < totalWaterUsage_of t y m"
  shows "js_sum (map (waterCost_of t y m W) (billed_units t y m)) = Fin 0"
proof -
  have eq: "map (waterCost_of t y m W) (billed_units t y m) =
          map (\<lambda>u. Fin 0) (billed_units t y m)"
    using assms by (simp add: waterCost_of_def waterCost_def)
  show ?thesis
    unfolding eq by (simp add: js_sum_Fin)
qed

lemma management_shares:
  assumes "totalArea_of t \<noteq> 0"
  shows "js_sum (map (managementCost_of t M) (billed_units t y m)) =
           Fin (sum_list (map area (billed_units t y m)) / totalArea_of t * M)"
proof -
  have eq: "map (managementCost_of t M) (billed_units t y m) =
          map (\<lambda>u. Fin (area u / totalArea_of t * M)) (billed_units t y m)"
    using assms by (simp add: managementCost_of_def managementCost_def)
  show ?thesis
    unfolding eq js_sum_Fin sum_list_scaled by (rule refl)
qed

lemma returned_bills_Some:
  "returned_bills (calculateAndSaveBills y m E W M (Some t)) =
     map (unit_bill_of t y m E W M) (billed_units t y m)"
  by (simp add: calculateAndSaveBills_Some returned_bills_def)

text \<open>
  Claim C3, as the code has it. The bills are built from the shares
  \<open>electricityCost_of\<close>, \<open>waterCost_of\<close> and \<open>managementCost_of\<close> of the billed units.
  When the total usage of a utility is positive, its shares sum to the total cost that
  was entered; when it is not, every share is 0. The management shares sum to the part
  of the total that the area of the billed units is of the area of all registered units,
  which is the whole total when every registered unit is billed. The sums are exact in
  the rational arithmetic of the model.
\<close>

theorem shares_sum_to_total:
  "returned_bills (calculateAndSaveBills y m E W M (Some t)) =
     map (\<lambda>u. make_unitBill u y m (electricityCost_of t y m E u) (waterCost_of t y m W u)
                 (managementCost_of t M u))
       (billed_units t y m) \<and>
   (0 < totalElectricityUsage_of t y m \<longrightarrow>
      js_sum (map (electricityCost_of t y m E) (billed_units t y m)) = Fin E) \<and>
   (\<not> 0 < totalElectricityUsage_of t y m \<longrightarrow>
      js_sum (map (electricityCost_of t y m E) (billed_units t y m)) = Fin 0) \<and>
   (0 < totalWaterUsage_of t y m \<longrightarrow>
      js_sum (map (waterCost_of t y m W) (billed_units t y m)) = Fin W) \<and>
   (\<not> 0 < totalWaterUsage_of t y m \<longrightarrow>
      js_sum (map (waterCost_of t y m W) (billed_units t y m)) = Fin 0) \<and>
   (totalArea_of t \<noteq> 0 \<longrightarrow>
      js_sum (map (managementCost_of t M) (billed_units t y m)) =
        Fin (sum_list (map area (billed_units t y m)) / totalArea_of t * M)) \<and>
   (totalArea_of t \<noteq> 0 \<longrightarrow> billed_units t y m = registered_units t \<longrightarrow>
      js_sum (map (managementCost_of t M) (billed_units t y m)) = Fin M)"
proof -
  have "js_sum (map (managementCost_of t M) (billed_units t y m)) = Fin M"
    if "totalArea_of t \<noteq> 0" and "billed_units t y m = registered_units t"
    using that management_shares [of t M y m] by (simp add: totalArea_of_def)
  then show ?thesis
    by (simp add: returned_bills_Some unit_bill_of_def [abs_def] electricity_shares_positive
          electricity_shares_zero water_shares_positive water_shares_zero management_shares)
qed

theorem shares_sum_to_total_witness:
  "0 < totalElectricityUsage_of sample_tables 2024 2 \<and>
   0 < totalWaterUsage_of sample_tables 2024 2 \<and>
   totalArea_of sample_tables \<noteq> 0 \<and>
   billed_units sample_tables 2024 2 = registered_units sample_tables \<and>
   js_sum (map (electricityCost_of sample_tables 2024 2 47440)
             (billed_units sample_tables 2024 2)) = Fin 47440 \<and>
   js_sum (map (waterCost_of sample_tables 2024 2 17440)
             (billed_units sample_tables 2024 2)) = Fin 17440 \<and>
   js_sum (map (managementCost_of sample_tables 223630)
             (billed_units sample_tables 2024 2)) = Fin 223630"
proof -
  have h: "0 < totalElectricityUsage_of sample_tables 2024 2"
    "0 < totalWaterUsage_of sample_tables 2024 2"
    "totalArea_of sample_tables \<noteq> 0"
    "billed_units sample_tables 2024 2 = registered_units sample_tables"
    by code_simp+
  note total = shares_sum_to_total [of 2024 2 47440 17440 223630 sample_tables]
  have e: "js_sum (map (electricityCost_of sample_tables 2024 2 47440)
             (billed_units sample_tables 2024 2)) = Fin 47440"
    using total h(1) by blast
  have w: "js_sum (map (waterCost_of sample_tables 2024 2 17440)
             (billed_units sample_tables 2024 2)) = Fin 17440"
    using total h(2) by blast
  have g: "js_sum (map (managementCost_of sample_tables 223630)
             (billed_units sample_tables 2024 2)) = Fin 223630"
    using total h(3,4) by blast
  show ?thesis
    by (intro conjI h e w g)
qed

text \<open>
  Claim C3 as the specification states it fails in a first month. With one reading, of
  unit 601A, and none of the month before, the usage is 0 and so is every electricity and
  water share, whatever total was entered; and unit 601A is charged a third of the
  management total, the rest being the share of unit 601B, which is not billed.
\<close>

theorem shares_sum_counterexample:
  "js_sum (map (electricityCost_of first_month_tables 2024 2 47440)
             (billed_units first_month_tables 2024 2)) = Fin 0 \<and>
   js_sum (map (waterCost_of first_month_tables 2024 2 17440)
             (billed_units first_month_tables 2024 2)) = Fin 0 \<and>
   js_sum (map (managementCost_of first_month_tables 223630)
             (billed_units first_month_tables 2024 2)) = Fin (223630 / 3) \<and>
   returned_bills (calculateAndSaveBills 2024 2 47440 17440 223630 (Some first_month_tables)) =
     [\<lparr>unit_id_ub = ''601A'', year_ub = 2024, month_ub = 2,
       electricity_cost = Fin 0, water_cost = Fin 0,
       management_cost = Fin 74543, total_cost = Fin 74543\<rparr>]"
  by code_simp

subsection \<open>Units with a reading\<close>

lemma has_reading_iff:
  "has_reading t y m u =
     (\<exists>r\<in>set (meter_readings t). unit_id r = id' u \<and> year r = y \<and> month r = m)"
  by (auto simp: has_reading_def currentReading_of_def currentReadings_of_def find_None_iff)

lemma billed_units_filter:
  "billed_units t y m =
     filter (\<lambda>u. \<exists>r\<in>set (meter_readings t). unit_id r = id' u \<and> year r = y \<and> month r = m)
       (sort_key id' (units t))"
  by (simp add: billed_units_def registered_units_def has_reading_iff [abs_def])

lemma totalArea_of_units: "totalArea_of t = sum_list (map area (units t))"
proof -
  have "mset (map area (sort_key id' (units t))) = mset (map area (units t))"
    by simp
  then have "sum_mset (mset (map area (sort_key id' (units t)))) =
             sum_mset (mset (map area (units t)))"
    by (rule arg_cong)
  then show ?thesis
    by (simp only: sum_mset_sum_list totalArea_of_def registered_units_def)
qed

lemma set_billed_units:
  "set (billed_units t y m) = {u \<in> set (units t). has_reading t y m u}"
  by (auto simp: billed_units_def registered_units_def)

lemma usage_without_previous:
  "previousReading_of t (id' u) y m = None \<Longrightarrow> unit_electricityUsage t y m u = 0"
  "previousReading_of t (id' u) y m = None \<Longrightarrow> unit_waterUsage t y m u = 0"
  by (simp_all add: unit_electricityUsage_def unit_waterUsage_def calculateElectricityUsage_def
        calculateWaterUsage_def split: option.split)

lemma cost_of_no_usage [simp]:
  "electricityCost 0 T E = Fin 0" "waterCost 0 T W = Fin 0"
  by (simp_all add: electricityCost_def waterCost_def)

lemma round_half_up_0 [simp]: "round_half_up 0 = 0"
  by code_simp

lemma previousReading_of_None_iff:
  "(previousReading_of t u y m = None) =
     (\<not> (\<exists>r\<in>set (meter_readings t). unit_id r = u \<and> year r = (if m = 1 then y - 1 else y)
             \<and> month r = (if m = 1 then 12 else m - 1)))"
  by (auto simp: previousReading_of_def find_None_iff)

text \<open>
  Claim C4. A unit with a reading in the target month is billed for the usage
  \<open>max 0 (current - previous)\<close> of electricity and of water, where the previous reading is the
  row of the same unit for the month before (December of the year before when the
  month is 1), and for the usage 0 when the table has no such row. The usage is never
  negative, and it is the usage from which the bill of the unit is computed.
\<close>

theorem usage_is_clamped_difference:
  assumes "unit \<in> set (units t)"
    and "getMeterReadings (Some t) y m = Inr rs"
    and "find (\<lambda>r. unit_id r = id' unit) rs = Some c"
  shows "\<exists>prev.
       getPreviousMonthReading (Some t) (id' unit) y m = Inr prev \<and>
       prev = find (\<lambda>r. unit_id r = id' unit \<and> year r = (if m = 1 then y - 1 else y)
                          \<and> month r = (if m = 1 then 12 else m - 1))
                (meter_readings t) \<and>
       calculateElectricityUsage c prev =
         (case prev of None \<Rightarrow> 0
          | Some p \<Rightarrow> max 0 (electricity_reading c - electricity_reading p)) \<and>
       calculateWaterUsage c prev =
         (case prev of None \<Rightarrow> 0 | Some p \<Rightarrow> max 0 (water_reading c - water_reading p)) \<and>
       0 \<le> calculateElectricityUsage c prev \<and> 0 \<le> calculateWaterUsage c prev \<and>
       (\<exists>b\<in>set (returned_bills (calculateAndSaveBills y m E W M (Some t))).
          unit_id_ub b = id' unit \<and>
          electricity_cost b =
            Math_round (electricityCost (calculateElectricityUsage c prev)
                          (totalElectricityUsage_of t y m) E) \<and>
          water_cost b =
            Math_round (waterCost (calculateWaterUsage c prev) (totalWaterUsage_of t y m) W))"
proof -
  from assms(2) have rs: "rs = currentReadings_of t y m"
    by (simp add: getMeterReadings_Some)
  with assms(3) have cur: "currentReading_of t y m (id' unit) = Some c"
    by (simp add: currentReading_of_def)
  then have "has_reading t y m unit"
    by (simp add: has_reading_def)
  with assms(1) have billed: "unit \<in> set (billed_units t y m)"
    by (simp add: set_billed_units)
  define b where "b = unit_bill_of t y m E W M unit"
  have "b \<in> set (returned_bills (calculateAndSaveBills y m E W M (Some t)))"
    using billed by (simp add: returned_bills_Some b_def)
  moreover have "unit_id_ub b = id' unit"
    "electricity_cost b =
       Math_round (electricityCost
         (calculateElectricityUsage c (previousReading_of t (id' unit) y m))
         (totalElectricityUsage_of t y m) E)"
    "water_cost b =
       Math_round (waterCost (calculateWaterUsage c (previousReading_of t (id' unit) y m))
         (totalWaterUsage_of t y m) W)"
    using cur
    by (simp_all add: b_def unit_bill_of_def make_unitBill_def electricityCost_of_def
          waterCost_of_def unit_electricityUsage_def unit_waterUsage_def)
  ultimately have bill:
    "\<exists>b\<in>set (returned_bills (calculateAndSaveBills y m E W M (Some t))).
        unit_id_ub b = id' unit \<and>
        electricity_cost b =
          Math_round (electricityCost
            (calculateElectricityUsage c (previousReading_of t (id' unit) y m))
            (totalElectricityUsage_of t y m) E) \<and>
        water_cost b =
          Math_round (waterCost (calculateWaterUsage c (previousReading_of t (id' unit) y m))
            (totalWaterUsage_of t y m) W)"
    by blast
  have nonneg: "0 \<le> calculateElectricityUsage c (previousReading_of t (id' unit) y m)"
    "0 \<le> calculateWaterUsage c (previousReading_of t (id' unit) y m)"
    by (simp_all add: calculateElectricityUsage_def calculateWaterUsage_def
          split: option.split)
  show ?thesis
    apply (rule exI [of _ "previousReading_of t (id' unit) y m"])
    apply (intro conjI bill nonneg)
       apply (rule getPreviousMonthReading_Some)
      apply (simp add: previousReading_of_def)
     apply (simp add: calculateElectricityUsage_def)
    apply (simp add: calculateWaterUsage_def)
    done
qed

theorem usage_is_clamped_difference_witness:
  "unit_601A \<in> set (units sample_tables) \<and>
   getMeterReadings (Some sample_tables) 2024 2 = Inr februaryReadings \<and>
   find (\<lambda>r. unit_id r = id' unit_601A) februaryReadings = Some february_601A \<and>
   (\<exists>prev. getPreviousMonthReading (Some sample_tables) (id' unit_601A) 2024 2 = Inr prev \<and>
      prev = Some january_601A \<and>
      calculateElectricityUsage february_601A prev = 200 \<and>
      calculateWaterUsage february_601A prev = 366 / 100)"
proof -
  have h1: "unit_601A \<in> set (units sample_tables)"
    by (simp add: unit_601A_def sample_tables_def insertDefaultData_def createTables_def
          insert_or_replace_def)
  have h2: "getMeterReadings (Some sample_tables) 2024 2 = Inr februaryReadings"
    by (simp add: getMeterReadings_def sample_tables_def januaryReadings_def
          februaryReadings_def)
  have h3: "find (\<lambda>r. unit_id r = id' unit_601A) februaryReadings = Some february_601A"
    by (simp add: februaryReadings_def unit_601A_def february_601A_def)
  from usage_is_clamped_difference [OF h1 h2 h3, of 0 0 0]
  obtain prev where prev:
    "getPreviousMonthReading (Some sample_tables) (id' unit_601A) 2024 2 = Inr prev"
    "prev = find (\<lambda>r. unit_id r = id' unit_601A \<and> year r = (if (2::int) = 1 then 2024 - 1 else 2024)
                          \<and> month r = (if (2::int) = 1 then 12 else 2 - 1))
                (meter_readings sample_tables)"
    "calculateElectricityUsage february_601A prev =
       (case prev of None \<Rightarrow> 0
        | Some p \<Rightarrow> max 0 (electricity_reading february_601A - electricity_reading p))"
    "calculateWaterUsage february_601A prev =
       (case prev of None \<Rightarrow> 0
        | Some p \<Rightarrow> max 0 (water_reading february_601A - water_reading p))"
    by blast
  from prev(2) have p: "prev = Some january_601A"
    by (simp add: sample_tables_def januaryReadings_def februaryReadings_def unit_601A_def
          january_601A_def)
  have "calculateElectricityUsage february_601A prev = 200"
    "calculateWaterUsage february_601A prev = 366 / 100"
    unfolding prev(3,4) by (simp_all add: p february_601A_def january_601A_def)
  with h1 h2 h3 prev(1) p show ?thesis
    by blast
qed

text \<open>
  Claim C5. The call returns one bill for each registered unit that has a reading in the
  target month, in the order of \<^verbatim>\<open>getUnits\<close>, and none for the other units; these
  bills are what the call writes to the table of bills. The management cost of a bill is
  the rounded share \<open>area / totalArea * total\<close> of its unit, and its electricity and water
  costs are 0 when the table has no reading of the unit for the month before.
\<close>

theorem one_bill_per_unit_with_reading:
  "\<exists>bills t'. calculateAndSaveBills y m E W M (Some t) = Inr (bills, Some t') \<and>
     list_all2
       (\<lambda>u b. unit_id_ub b = id' u \<and> year_ub b = y \<and> month_ub b = m \<and>
          management_cost b =
            Math_round (js_mul (js_div (area u) (sum_list (map area (units t)))) M) \<and>
          (\<not> (\<exists>r\<in>set (meter_readings t). unit_id r = id' u \<and>
                  year r = (if m = 1 then y - 1 else y) \<and>
                  month r = (if m = 1 then 12 else m - 1)) \<longrightarrow>
             electricity_cost b = Fin 0 \<and> water_cost b = Fin 0))
       (filter (\<lambda>u. \<exists>r\<in>set (meter_readings t). unit_id r = id' u \<and> year r = y \<and> month r = m)
          (sort_key id' (units t)))
       bills \<and>
     unit_bills t' = foldl (\<lambda>rows b. insert_or_replace unit_bill_key b rows) (unit_bills t) bills"
proof -
  have zero: "electricity_cost (unit_bill_of t y m E W M u) = Fin 0 \<and>
              water_cost (unit_bill_of t y m E W M u) = Fin 0"
    if "\<not> (\<exists>r\<in>set (meter_readings t). unit_id r = id' u \<and>
                year r = (if m = 1 then y - 1 else y) \<and>
                month r = (if m = 1 then 12 else m - 1))" for u
  proof -
    from that have "previousReading_of t (id' u) y m = None"
      using previousReading_of_None_iff [of t "id' u" y m] by blast
    then show ?thesis
      by (simp add: unit_bill_of_def make_unitBill_def electricityCost_of_def
            waterCost_of_def usage_without_previous)
  qed
  have rest: "unit_id_ub (unit_bill_of t y m E W M u) = id' u \<and>
              year_ub (unit_bill_of t y m E W M u) = y \<and>
              month_ub (unit_bill_of t y m E W M u) = m \<and>
              management_cost (unit_bill_of t y m E W M u) =
                Math_round (js_mul (js_div (area u) (sum_list (map area (units t)))) M)" for u
    by (simp add: unit_bill_of_def make_unitBill_def managementCost_of_def managementCost_def
          totalArea_of_units)
  show ?thesis
    unfolding calculateAndSaveBills_Some billed_units_filter [symmetric]
    using zero rest
    by (simp add: list_all2_map_same save_all_def [symmetric])
qed

theorem one_bill_per_unit_with_reading_witness:
  "\<not> (\<exists>r\<in>set (meter_readings first_month_tables). unit_id r = id' unit_601A \<and>
          year r = 2024 \<and> month r = 1) \<and>
   (\<exists>bills t'. calculateAndSaveBills 2024 2 47440 17440 223630 (Some first_month_tables) =
        Inr (bills, Some t') \<and>
      map unit_id_ub bills = [id' unit_601A] \<and> map electricity_cost bills = [Fin 0] \<and>
      map water_cost bills = [Fin 0] \<and> map management_cost bills = [Fin 74543])"
proof -
  have h: "\<not> (\<exists>r\<in>set (meter_readings first_month_tables). unit_id r = id' unit_601A \<and>
          year r = 2024 \<and> month r = 1)"
    by (simp add: first_month_tables_def)
  have f: "filter (\<lambda>u. \<exists>r\<in>set (meter_readings first_month_tables).
                     unit_id r = id' u \<and> year r = 2024 \<and> month r = 2)
             (sort_key id' (units first_month_tables)) = [unit_601A]"
    by code_simp
  have g: "Math_round (js_mul (js_div (area unit_601A)
             (sum_list (map area (units first_month_tables)))) 223630) = Fin 74543"
    by code_simp
  show ?thesis
    using one_bill_per_unit_with_reading [of 2024 2 47440 17440 223630 first_month_tables] h
    by (auto simp: f g list_all2_Cons1 simp del: js_div.simps js_mul.simps Math_round.simps)
qed

subsection \<open>Rounding keeps the order\<close>

lemma round_half_up_mono: "x \<le> y \<Longrightarrow> round_half_up x \<le> round_half_up y"
  by (simp add: round_half_up_def floor_mono)

lemma management_share_mono:
  assumes "0 \<le> M" and "0 < A" and "a1 \<le> a2"
  shows "round_half_up (a1 * M / A) \<le> round_half_up (a2 * M / A)"
proof -
  from assms(3,1) have "a1 * M \<le> a2 * M"
    by (rule mult_right_mono)
  with assms(2) have "a1 * M / A \<le> a2 * M / A"
    by (simp add: divide_right_mono)
  then show ?thesis
    by (rule round_half_up_mono)
qed

lemma set_zip_map_same: "set (zip xs (map f xs)) = (\<lambda>x. (x, f x)) ` set xs"
  by (induction xs) auto

text \<open>
  Claim C6. When the management total is not negative and the total area of the
  registered units is positive (as it is when a unit is billed and every area is positive),
  every management cost is finite, and of two units billed in the same call the one
  with the larger area is not charged a smaller rounded management cost.
\<close>

theorem management_cost_monotonic:
  assumes "0 \<le> M" and "0 < sum_list (map area (units t))"
  shows "\<exists>bills t'. calculateAndSaveBills y m E W M (Some t) = Inr (bills, Some t') \<and>
           length bills = length (billed_units t y m) \<and>
           (\<forall>(u1, b1)\<in>set (zip (billed_units t y m) bills).
              \<forall>(u2, b2)\<in>set (zip (billed_units t y m) bills).
                area u1 \<le> area u2 \<longrightarrow>
                  finite_le (management_cost b1) (management_cost b2))"
proof -
  have "finite_le (management_cost (unit_bill_of t y m E W M u1))
          (management_cost (unit_bill_of t y m E W M u2))"
    if "area u1 \<le> area u2" for u1 u2
    using assms that
    by (simp add: unit_bill_of_def make_unitBill_def managementCost_of_def managementCost_def
          totalArea_of_units finite_le_def management_share_mono)
  then show ?thesis
    unfolding calculateAndSaveBills_Some
    by (simp add: set_zip_map_same)
qed

theorem management_cost_monotonic_witness:
  "(0::rat) \<le> 223630 \<and> 0 < sum_list (map area (units sample_tables)) \<and>
   area unit_601A \<le> area unit_601B \<and>
   (\<exists>bills t'. calculateAndSaveBills 2024 2 47440 17440 223630 (Some sample_tables) =
        Inr (bills, Some t') \<and>
      map unit_id_ub bills = [id' unit_601A, id' unit_601B] \<and>
      finite_le (management_cost (bills ! 0)) (management_cost (bills ! 1)))"
proof -
  have h1: "(0::rat) \<le> 223630"
    by simp
  have h2: "0 < sum_list (map area (units sample_tables))"
    by code_simp
  have h3: "area unit_601A \<le> area unit_601B"
    by (simp add: unit_601A_def unit_601B_def)
  from management_cost_monotonic [OF h1 h2, of 2024 2 47440 17440]
  obtain bills t' where run:
    "calculateAndSaveBills 2024 2 47440 17440 223630 (Some sample_tables) = Inr (bills, Some t')"
    and mono: "\<forall>(u1, b1)\<in>set (zip (billed_units sample_tables 2024 2) bills).
              \<forall>(u2, b2)\<in>set (zip (billed_units sample_tables 2024 2) bills).
                area u1 \<le> area u2 \<longrightarrow>
                  finite_le (management_cost b1) (management_cost b2)"
    by blast
  have billed: "billed_units sample_tables 2024 2 = [unit_601A, unit_601B]"
    by code_simp
  have "map unit_id_ub (returned_bills
          (calculateAndSaveBills 2024 2 47440 17440 223630 (Some sample_tables))) =
        [id' unit_601A, id' unit_601B]"
    by code_simp
  with run have ids: "map unit_id_ub bills = [id' unit_601A, id' unit_601B]"
    by (simp add: returned_bills_def)
  then obtain bA bB where bills: "bills = [bA, bB]"
    by (auto simp: map_eq_Cons_conv)
  from mono h3 have "finite_le (management_cost bA) (management_cost bB)"
    unfolding billed bills by simp
  with h1 h2 h3 run ids bills show ?thesis
    by simp
qed

subsection \<open>What the calculation reads\<close>

lemma views_frame:
  assumes "units t2 = units t" and "meter_readings t2 = meter_readings t"
  shows "billed_units t2 = billed_units t" and "unit_bill_of t2 = unit_bill_of t"
proof -
  have base: "registered_units t2 = registered_units t"
    "currentReading_of t2 = currentReading_of t"
    "previousReading_of t2 = previousReading_of t"
    by (simp_all add: registered_units_def currentReading_of_def currentReadings_of_def
          previousReading_of_def assms fun_eq_iff)
  have usage: "unit_electricityUsage t2 = unit_electricityUsage t"
    "unit_waterUsage t2 = unit_waterUsage t"
    "has_reading t2 = has_reading t"
    by (simp_all add: unit_electricityUsage_def unit_waterUsage_def has_reading_def base
          fun_eq_iff cong: option.case_cong)
  have total: "totalElectricityUsage_of t2 = totalElectricityUsage_of t"
    "totalWaterUsage_of t2 = totalWaterUsage_of t"
    "totalArea_of t2 = totalArea_of t"
    by (simp_all add: totalElectricityUsage_of_def totalWaterUsage_of_def totalArea_of_def
          base usage fun_eq_iff)
  show "billed_units t2 = billed_units t"
    by (simp add: billed_units_def base usage fun_eq_iff)
  show "unit_bill_of t2 = unit_bill_of t"
    by (simp add: unit_bill_of_def electricityCost_of_def waterCost_of_def
          managementCost_of_def usage total fun_eq_iff)
qed

text \<open>
  Claim C7. A second call for the same month with the same totals returns the same bills
  as the first and leaves the tables as the first call left them: each row it writes
  replaces an equal row. The bills do not depend on the two bill tables at all. (The
  columns \<^verbatim>\<open>id\<close> and \<^verbatim>\<open>created_at\<close>, which the engine assigns anew to a replaced row, are
  not part of the model.)
\<close>

theorem recalculation_is_idempotent:
  "\<exists>bills t1.
     calculateAndSaveBills y m E W M (Some t) = Inr (bills, Some t1) \<and>
     calculateAndSaveBills y m E W M (Some t1) = Inr (bills, Some t1) \<and>
     (\<forall>mbs ubs. returned_bills (calculateAndSaveBills y m E W M
                     (Some (t\<lparr>monthly_bills := mbs, unit_bills := ubs\<rparr>))) = bills)"
proof -
  define mb where "mb = \<lparr>year_mb = y, month_mb = m, total_electricity_cost = E,
                       total_water_cost = W, total_management_cost = M\<rparr>"
  define bills where "bills = map (unit_bill_of t y m E W M) (billed_units t y m)"
  define t1 where "t1 = t\<lparr>monthly_bills := insert_or_replace monthly_bill_key mb (monthly_bills t),
                          unit_bills := save_all (unit_bills t) bills\<rparr>"
  have first: "calculateAndSaveBills y m E W M (Some t) = Inr (bills, Some t1)"
    by (simp add: calculateAndSaveBills_Some bills_def t1_def mb_def)
  have same: "billed_units t1 = billed_units t" "unit_bill_of t1 = unit_bill_of t"
    by (rule views_frame; simp add: t1_def)+
  have second: "calculateAndSaveBills y m E W M (Some t1) = Inr (bills, Some t1)"
    unfolding calculateAndSaveBills_Some same bills_def [symmetric] mb_def [symmetric]
    by (simp add: t1_def insert_or_replace_idem save_all_idem)
  have "returned_bills (calculateAndSaveBills y m E W M
          (Some (t\<lparr>monthly_bills := mbs, unit_bills := ubs\<rparr>))) = bills" for mbs ubs
  proof -
    have "billed_units (t\<lparr>monthly_bills := mbs, unit_bills := ubs\<rparr>) = billed_units t"
      "unit_bill_of (t\<lparr>monthly_bills := mbs, unit_bills := ubs\<rparr>) = unit_bill_of t"
      by (rule views_frame; simp)+
    then show ?thesis
      by (simp add: returned_bills_Some bills_def)
  qed
  with first second show ?thesis
    by blast
qed

subsection \<open>The usage on the statement\<close>

lemma getUsageDetails_Some:
  "getUsageDetails (Some t) u y m =
     Inr (case currentReading_of t y m u of
            None \<Rightarrow> None
          | Some c \<Rightarrow>
              Some \<lparr>currentElectricity = electricity_reading c,
                    previousElectricity =
                      (case previousReading_of t u y m of None \<Rightarrow> 0
                       | Some p \<Rightarrow> electricity_reading p),
                    electricityUsage = calculateElectricityUsage c (previousReading_of t u y m),
                    currentWater = water_reading c,
                    previousWater =
                      (case previousReading_of t u y m of None \<Rightarrow> 0
                       | Some p \<Rightarrow> water_reading p),
                    waterUsage = calculateWaterUsage c (previousReading_of t u y m)\<rparr>)"
  by (simp add: getUsageDetails_def getMeterReadings_Some getPreviousMonthReading_Some
        currentReading_of_def Let_def split: option.split)

lemma displayed_usage:
  "displayed_electricityUsage (Some t) y m = unit_electricityUsage t y m"
  "displayed_waterUsage (Some t) y m = unit_waterUsage t y m"
  by (simp_all add: displayed_electricityUsage_def displayed_waterUsage_def
        getUsageDetails_Some unit_electricityUsage_def unit_waterUsage_def fun_eq_iff
        split: option.split)

lemma getUsageDetails_frame:
  "getUsageDetails (Some (t\<lparr>monthly_bills := mbs, unit_bills := ubs\<rparr>)) u y m =
     getUsageDetails (Some t) u y m"
  by (simp add: getUsageDetails_Some cong: option.case_cong)

lemma readings_frame:
  "getMeterReadings (Some (t\<lparr>monthly_bills := mbs, unit_bills := ubs\<rparr>)) y m =
     getMeterReadings (Some t) y m"
  "getPreviousMonthReading (Some (t\<lparr>monthly_bills := mbs, unit_bills := ubs\<rparr>)) u y m =
     getPreviousMonthReading (Some t) u y m"
  by (simp_all add: getMeterReadings_Some getPreviousMonthReading_Some)

text \<open>
  Claim C8. For every billed unit, let \<open>c\<close> be the reading of the target month that the
  billing loop finds for it and \<open>prev\<close> the reading of the month before that the loop
  fetches (the same whatever the two bill tables hold while the loop runs). Then
  \<^verbatim>\<open>getUsageDetails\<close> returns a record, the same before and after the calculation, whose
  \<^verbatim>\<open>electricityUsage\<close> and \<^verbatim>\<open>waterUsage\<close> are \<open>calculateElectricityUsage c prev\<close> and
  \<open>calculateWaterUsage c prev\<close>: 0 without a previous reading and the difference clamped at
  0 otherwise. These are the usages from which the costs of the unit's bill are computed,
  over the totals that \<^verbatim>\<open>calculateTotalElectricityUsage\<close> and
  \<^verbatim>\<open>calculateTotalWaterUsage\<close> return, which are the sums of the usage shown for the
  billed units.
\<close>

theorem displayed_usage_is_billed_usage:
  "\<exists>bills t' rs totalE totalW.
     calculateAndSaveBills y m E W M (Some t) = Inr (bills, Some t') \<and>
     (\<forall>mbs ubs. getMeterReadings (Some (t\<lparr>monthly_bills := mbs, unit_bills := ubs\<rparr>)) y m =
        Inr rs) \<and>
     calculateTotalElectricityUsage (Some t) (sort_key id' (units t)) rs y m 0 = Inr totalE \<and>
     calculateTotalWaterUsage (Some t) (sort_key id' (units t)) rs y m 0 = Inr totalW \<and>
     totalE = sum_list (map (displayed_electricityUsage (Some t) y m) (billed_units t y m)) \<and>
     totalW = sum_list (map (displayed_waterUsage (Some t) y m) (billed_units t y m)) \<and>
     list_all2
       (\<lambda>u b. \<exists>c prev d.
          find (\<lambda>r. unit_id r = id' u) rs = Some c \<and>
          (\<forall>mbs ubs. getPreviousMonthReading
                        (Some (t\<lparr>monthly_bills := mbs, unit_bills := ubs\<rparr>)) (id' u) y m =
                      Inr prev) \<and>
          getUsageDetails (Some t) (id' u) y m = Inr (Some d) \<and>
          getUsageDetails (Some t') (id' u) y m = Inr (Some d) \<and>
          electricityUsage d = calculateElectricityUsage c prev \<and>
          waterUsage d = calculateWaterUsage c prev \<and>
          electricityUsage d =
            (case prev of None \<Rightarrow> 0
             | Some p \<Rightarrow> max 0 (electricity_reading c - electricity_reading p)) \<and>
          waterUsage d =
            (case prev of None \<Rightarrow> 0 | Some p \<Rightarrow> max 0 (water_reading c - water_reading p)) \<and>
          unit_id_ub b = id' u \<and>
          electricity_cost b =
            Math_round (electricityCost (calculateElectricityUsage c prev) totalE E) \<and>
          water_cost b = Math_round (waterCost (calculateWaterUsage c prev) totalW W) \<and>
          electricity_cost b =
            Math_round (electricityCost (electricityUsage d)
              (sum_list (map (displayed_electricityUsage (Some t) y m) (billed_units t y m)))
              E) \<and>
          water_cost b =
            Math_round (waterCost (waterUsage d)
              (sum_list (map (displayed_waterUsage (Some t) y m) (billed_units t y m))) W))
       (billed_units t y m) bills"
proof -
  define rs where "rs = currentReadings_of t y m"
  define totalE where "totalE = totalElectricityUsage_of t y m"
  define totalW where "totalW = totalWaterUsage_of t y m"
  define bills where "bills = map (unit_bill_of t y m E W M) (billed_units t y m)"
  obtain t' where run: "calculateAndSaveBills y m E W M (Some t) = Inr (bills, Some t')"
    and t': "t' = t\<lparr>monthly_bills := monthly_bills t', unit_bills := unit_bills t'\<rparr>"
    by (simp add: calculateAndSaveBills_Some bills_def)
  have readings: "getMeterReadings (Some (t\<lparr>monthly_bills := mbs, unit_bills := ubs\<rparr>)) y m =
      Inr rs" for mbs ubs
    by (simp add: readings_frame getMeterReadings_Some rs_def)
  have te: "calculateTotalElectricityUsage (Some t) (sort_key id' (units t)) rs y m 0 =
      Inr totalE"
    using calculateTotalElectricityUsage_Some [of t "registered_units t" y m 0]
    by (simp add: rs_def totalE_def totalElectricityUsage_of_def registered_units_def)
  have tw: "calculateTotalWaterUsage (Some t) (sort_key id' (units t)) rs y m 0 = Inr totalW"
    using calculateTotalWaterUsage_Some [of t "registered_units t" y m 0]
    by (simp add: rs_def totalW_def totalWaterUsage_of_def registered_units_def)
  have se: "totalE =
      sum_list (map (displayed_electricityUsage (Some t) y m) (billed_units t y m))"
    by (simp add: totalE_def displayed_usage billed_electricityUsage)
  have sw: "totalW = sum_list (map (displayed_waterUsage (Some t) y m) (billed_units t y m))"
    by (simp add: totalW_def displayed_usage billed_waterUsage)
  have per_unit: "\<exists>c prev d.
          find (\<lambda>r. unit_id r = id' u) rs = Some c \<and>
          (\<forall>mbs ubs. getPreviousMonthReading
                        (Some (t\<lparr>monthly_bills := mbs, unit_bills := ubs\<rparr>)) (id' u) y m =
                      Inr prev) \<and>
          getUsageDetails (Some t) (id' u) y m = Inr (Some d) \<and>
          getUsageDetails (Some t') (id' u) y m = Inr (Some d) \<and>
          electricityUsage d = calculateElectricityUsage c prev \<and>
          waterUsage d = calculateWaterUsage c prev \<and>
          electricityUsage d =
            (case prev of None \<Rightarrow> 0
             | Some p \<Rightarrow> max 0 (electricity_reading c - electricity_reading p)) \<and>
          waterUsage d =
            (case prev of None \<Rightarrow> 0 | Some p \<Rightarrow> max 0 (water_reading c - water_reading p)) \<and>
          unit_id_ub (unit_bill_of t y m E W M u) = id' u \<and>
          electricity_cost (unit_bill_of t y m E W M u) =
            Math_round (electricityCost (calculateElectricityUsage c prev) totalE E) \<and>
          water_cost (unit_bill_of t y m E W M u) =
            Math_round (waterCost (calculateWaterUsage c prev) totalW W) \<and>
          electricity_cost (unit_bill_of t y m E W M u) =
            Math_round (electricityCost (electricityUsage d)
              (sum_list (map (displayed_electricityUsage (Some t) y m) (billed_units t y m)))
              E) \<and>
          water_cost (unit_bill_of t y m E W M u) =
            Math_round (waterCost (waterUsage d)
              (sum_list (map (displayed_waterUsage (Some t) y m) (billed_units t y m))) W)"
    if "u \<in> set (billed_units t y m)" for u
  proof -
    from that have "has_reading t y m u"
      by (simp add: billed_units_def)
    then obtain c where c: "currentReading_of t y m (id' u) = Some c"
      by (auto simp: has_reading_def)
    define prev where "prev = previousReading_of t (id' u) y m"
    define d where "d =
      \<lparr>currentElectricity = electricity_reading c,
       previousElectricity = (case prev of None \<Rightarrow> 0 | Some p \<Rightarrow> electricity_reading p),
       electricityUsage = calculateElectricityUsage c prev,
       currentWater = water_reading c,
       previousWater = (case prev of None \<Rightarrow> 0 | Some p \<Rightarrow> water_reading p),
       waterUsage = calculateWaterUsage c prev\<rparr>"
    have 1: "find (\<lambda>r. unit_id r = id' u) rs = Some c"
      using c by (simp add: currentReading_of_def rs_def)
    have 2: "getPreviousMonthReading
               (Some (t\<lparr>monthly_bills := mbs, unit_bills := ubs\<rparr>)) (id' u) y m = Inr prev"
      for mbs ubs
      by (simp add: readings_frame getPreviousMonthReading_Some prev_def)
    have 3: "getUsageDetails (Some t) (id' u) y m = Inr (Some d)"
      by (simp add: getUsageDetails_Some c d_def prev_def)
    have 4: "getUsageDetails (Some t') (id' u) y m = Inr (Some d)"
      by (subst t') (simp only: getUsageDetails_frame 3)
    have 5: "electricityUsage d = calculateElectricityUsage c prev"
      "waterUsage d = calculateWaterUsage c prev"
      by (simp_all add: d_def)
    have 6: "calculateElectricityUsage c prev =
            (case prev of None \<Rightarrow> 0
             | Some p \<Rightarrow> max 0 (electricity_reading c - electricity_reading p))"
      "calculateWaterUsage c prev =
            (case prev of None \<Rightarrow> 0 | Some p \<Rightarrow> max 0 (water_reading c - water_reading p))"
      by (simp_all add: calculateElectricityUsage_def calculateWaterUsage_def)
    have 7: "unit_id_ub (unit_bill_of t y m E W M u) = id' u"
      "electricity_cost (unit_bill_of t y m E W M u) =
         Math_round (electricityCost (calculateElectricityUsage c prev) totalE E)"
      "water_cost (unit_bill_of t y m E W M u) =
         Math_round (waterCost (calculateWaterUsage c prev) totalW W)"
      by (simp_all add: unit_bill_of_def make_unitBill_def electricityCost_of_def
            waterCost_of_def unit_electricityUsage_def unit_waterUsage_def c prev_def
            totalE_def totalW_def)
    show ?thesis
      apply (rule exI [of _ c], rule exI [of _ prev], rule exI [of _ d])
      apply (intro conjI allI 1 2 3 4 5 7)
         apply (simp only: 5 6)
        apply (simp only: 5 6)
       apply (simp only: 5 7 se [symmetric])
      apply (simp only: 5 7 sw [symmetric])
      done
  qed
  have "list_all2
       (\<lambda>u b. \<exists>c prev d.
          find (\<lambda>r. unit_id r = id' u) rs = Some c \<and>
          (\<forall>mbs ubs. getPreviousMonthReading
                        (Some (t\<lparr>monthly_bills := mbs, unit_bills := ubs\<rparr>)) (id' u) y m =
                      Inr prev) \<and>
          getUsageDetails (Some t) (id' u) y m = Inr (Some d) \<and>
          getUsageDetails (Some t') (id' u) y m = Inr (Some d) \<and>
          electricityUsage d = calculateElectricityUsage c prev \<and>
          waterUsage d = calculateWaterUsage c prev \<and>
          electricityUsage d =
            (case prev of None \<Rightarrow> 0
             | Some p \<Rightarrow> max 0 (electricity_reading c - electricity_reading p)) \<and>
          waterUsage d =
            (case prev of None \<Rightarrow> 0 | Some p \<Rightarrow> max 0 (water_reading c - water_reading p)) \<and>
          unit_id_ub b = id' u \<and>
          electricity_cost b =
            Math_round (electricityCost (calculateElectricityUsage c prev) totalE E) \<and>
          water_cost b = Math_round (waterCost (calculateWaterUsage c prev) totalW W) \<and>
          electricity_cost b =
            Math_round (electricityCost (electricityUsage d)
              (sum_list (map (displayed_electricityUsage (Some t) y m) (billed_units t y m)))
              E) \<and>
          water_cost b =
            Math_round (waterCost (waterUsage d)
              (sum_list (map (displayed_waterUsage (Some t) y m) (billed_units t y m))) W))
       (billed_units t y m) bills"
    unfolding bills_def list_all2_map_same using per_unit by blast
  with run readings te tw se sw show ?thesis
    by blast
qed

theorem displayed_usage_is_billed_usage_witness:
  "\<exists>d. getUsageDetails (Some sample_tables) (id' unit_601A) 2024 2 = Inr (Some d) \<and>
        electricityUsage d = calculateElectricityUsage february_601A (Some january_601A) \<and>
        waterUsage d = calculateWaterUsage february_601A (Some january_601A) \<and>
        electricityUsage d = 200 \<and> waterUsage d = 366 / 100"
proof -
  have billed: "billed_units sample_tables 2024 2 = [unit_601A, unit_601B]"
    by code_simp
  have readings: "getMeterReadings
      (Some (sample_tables\<lparr>monthly_bills := mbs, unit_bills := ubs\<rparr>)) 2024 2 =
      Inr februaryReadings" for mbs ubs
    by (simp add: getMeterReadings_def sample_tables_def januaryReadings_def
          februaryReadings_def)
  have previous: "getPreviousMonthReading
      (Some (sample_tables\<lparr>monthly_bills := mbs, unit_bills := ubs\<rparr>))
      (id' unit_601A) 2024 2 = Inr (Some january_601A)" for mbs ubs
    by (simp add: getPreviousMonthReading_def sample_tables_def januaryReadings_def
          februaryReadings_def unit_601A_def january_601A_def)
  have current: "find (\<lambda>r. unit_id r = id' unit_601A) februaryReadings = Some february_601A"
    by (simp add: februaryReadings_def unit_601A_def february_601A_def)
  have usage_values: "calculateElectricityUsage february_601A (Some january_601A) = 200"
    "calculateWaterUsage february_601A (Some january_601A) = 366 / 100"
    by (simp_all add: calculateElectricityUsage_def calculateWaterUsage_def
          february_601A_def january_601A_def)
  note shown = displayed_usage_is_billed_usage [of 2024 2 47440 17440 223630 sample_tables,
      unfolded billed readings previous]
  from shown show ?thesis
    by (auto simp: list_all2_Cons1 current previous usage_values)
qed

subsection \<open>The row of the month\<close>

lemma find_insert_or_replace:
  "find (\<lambda>b. key b = key r) (insert_or_replace key r rows) = Some r"
proof -
  have "find (\<lambda>b. key b = key r) (xs @ [r]) = Some r"
    if "\<forall>x\<in>set xs. key x \<noteq> key r" for xs
    using that by (induction xs) simp_all
  then show ?thesis
    by (simp add: insert_or_replace_def)
qed

lemma getMonthlyBill_after_save:
  assumes "monthly_bills t' = insert_or_replace monthly_bill_key mb rows"
    and "year_mb mb = y" and "month_mb mb = m"
  shows "getMonthlyBill (Some t') y m = Inr (Some mb)"
  using find_insert_or_replace [of monthly_bill_key mb rows] assms
  by (simp add: getMonthlyBill_def monthly_bill_key_def)

lemma no_reading_no_bill:
  assumes "\<not> (\<exists>u\<in>set (units t). \<exists>r\<in>set (meter_readings t).
             unit_id r = id' u \<and> year r = y \<and> month r = m)"
  shows "billed_units t y m = []"
  using assms by (simp add: billed_units_filter filter_empty_conv)

text \<open>
  Claim C10. On an initialised database every call writes the row of the month with the
  three totals it was given: afterwards the table of monthly bills is the old one with that
  row inserted or replaced, and \<^verbatim>\<open>getMonthlyBill\<close> returns the row. When no registered
  unit has a reading in the month, the call still writes it, returns no bill and leaves
  the table of unit bills as it was. In the code the row is written by the first statement,
  before the units are read.
\<close>

theorem monthly_bill_is_always_saved:
  "\<exists>bills t'.
     calculateAndSaveBills y m E W M (Some t) = Inr (bills, Some t') \<and>
     monthly_bills t' =
       insert_or_replace monthly_bill_key
         \<lparr>year_mb = y, month_mb = m, total_electricity_cost = E,
          total_water_cost = W, total_management_cost = M\<rparr> (monthly_bills t) \<and>
     getMonthlyBill (Some t') y m =
       Inr (Some \<lparr>year_mb = y, month_mb = m, total_electricity_cost = E,
                  total_water_cost = W, total_management_cost = M\<rparr>) \<and>
     (\<not> (\<exists>u\<in>set (units t). \<exists>r\<in>set (meter_readings t).
           unit_id r = id' u \<and> year r = y \<and> month r = m) \<longrightarrow>
        bills = [] \<and> unit_bills t' = unit_bills t)"
  unfolding calculateAndSaveBills_Some
  by (auto simp: no_reading_no_bill save_all_def intro!: getMonthlyBill_after_save)

theorem monthly_bill_is_always_saved_witness:
  "\<not> (\<exists>u\<in>set (units sample_tables). \<exists>r\<in>set (meter_readings sample_tables).
        unit_id r = id' u \<and> year r = 2024 \<and> month r = 3) \<and>
   monthly_bills sample_tables = [] \<and>
   (\<exists>t'. calculateAndSaveBills 2024 3 100 200 300 (Some sample_tables) = Inr ([], Some t') \<and>
      monthly_bills t' =
        [\<lparr>year_mb = 2024, month_mb = 3, total_electricity_cost = 100,
          total_water_cost = 200, total_management_cost = 300\<rparr>] \<and>
      unit_bills t' = unit_bills sample_tables)"
proof -
  have h: "\<not> (\<exists>u\<in>set (units sample_tables). \<exists>r\<in>set (meter_readings sample_tables).
        unit_id r = id' u \<and> year r = 2024 \<and> month r = 3)"
    by (simp add: sample_tables_def januaryReadings_def februaryReadings_def)
  have e: "monthly_bills sample_tables = []"
    by (simp add: sample_tables_def insertDefaultData_def createTables_def)
  from monthly_bill_is_always_saved [of 2024 3 100 200 300 sample_tables] h
  show ?thesis
    by (auto simp: e insert_or_replace_def)
qed

subsection \<open>The click handlers\<close>

text \<open>
  Claim C9. When the month has no reading, both handlers set an error alert and return
  the database and the table of results as they were: \<^verbatim>\<open>calculateAndSaveBills\<close> is not
  called. (Which alert it is depends on the amounts, which are checked first.)
\<close>

theorem no_readings_no_calculation:
  assumes "getMeterReadings database y m = Inr []"
  shows "(\<exists>txt. handleCalculate y m parsedElectricity parsedWater parsedManagement database ui =
            (ui\<lparr>message := Some (Message Error txt)\<rparr>, database)) \<and>
         (\<exists>txt. handleCalculateBills y m totalMgmt totalElec totalWater shared database ui =
            (ui\<lparr>message := Some (Message Error txt)\<rparr>, database))"
  using assms
  by (auto simp: handleCalculate_def handleCalculateBills_def split: option.split)

theorem no_readings_no_calculation_witness:
  "getMeterReadings (Some sample_tables) 2024 3 = Inr [] \<and>
   handleCalculate 2024 3 (Some 100) (Some 200) (Some 300) (Some sample_tables) initial_ui =
     (initial_ui\<lparr>message := Some (Message Error (NoReadings 2024 3))\<rparr>, Some sample_tables) \<and>
   handleCalculateBills 2024 3 (Some 600) (Some 100) (Some 200) 300 (Some sample_tables)
       initial_ui =
     (initial_ui\<lparr>message := Some (Message Error (NoReadings 2024 3))\<rparr>, Some sample_tables)"
proof -
  have h: "getMeterReadings (Some sample_tables) 2024 3 = Inr []"
    by (simp add: getMeterReadings_def sample_tables_def januaryReadings_def
          februaryReadings_def)
  from no_readings_no_calculation [OF h, of "Some 100" "Some 200" "Some 300" initial_ui
      "Some 600" "Some 100" "Some 200" 300]
  show ?thesis
    by (simp add: h handleCalculate_def handleCalculateBills_def)
qed

end
